theory Spec2Isabelle
  imports Complex_Main "HOL-Library.Char_ord" "HOL-Library.List_Lexorder"
begin

section \<open>Python values shared by the embedding\<close>

text \<open>
  Exceptions are values. \<open>IndexError\<close> is what a Python list raises on an index outside
  \<open>-n \<le> i < n\<close>, \<open>ZeroDivisionError\<close> what \<open>float / int\<close> raises on a zero divisor,
  \<open>DecodeError\<close> stands for any failure of \<open>Image.open\<close>. \<open>ZeroBatches\<close> is the error
  the specification names for an epoch over no batches; no statement of the source
  raises it, it is here only so that the specification's sentence can be written down.
\<close>

datatype error = IndexError | ZeroDivisionError | DecodeError | ZeroBatches

text \<open>\<open>xs[i]\<close> on a Python list: a negative index counts from the end.\<close>

definition py_getitem :: "'a list \<Rightarrow> int \<Rightarrow> error + 'a" where
  "py_getitem xs i =
     (if 0 \<le> i \<and> i < int (length xs) then Inr (xs ! nat i)
      else if i < 0 \<and> - int (length xs) \<le> i then Inr (xs ! nat (int (length xs) + i))
      else Inl IndexError)"

text \<open>\<open>os.path.basename\<close> (posixpath): everything after the last slash.\<close>

definition basename :: "string \<Rightarrow> string" where
  "basename p = rev (takeWhile (\<lambda>c. c \<noteq> CHR ''/'') (rev p))"

text \<open>
  \<open>os.path.join\<close> (posixpath): a component that starts with a slash replaces what was
  joined so far; otherwise it is appended, after a slash unless the path so far is empty
  or already ends with one.
\<close>

definition join_step :: "string \<Rightarrow> string \<Rightarrow> string" where
  "join_step path b =
     (if b \<noteq> [] \<and> hd b = CHR ''/'' then b
      else if path = [] \<or> last path = CHR ''/'' then path @ b
      else path @ ''/'' @ b)"

primrec path_join :: "string \<Rightarrow> string list \<Rightarrow> string" where
  "path_join a [] = a"
| "path_join a (b # p) = path_join (join_step a b) p"

text \<open>\<open>x or d\<close> on an optional list: \<open>None\<close> and the empty list are both falsy.\<close>

definition py_or :: "'a list option \<Rightarrow> 'a list \<Rightarrow> 'a list" where
  "py_or x d = (case x of None \<Rightarrow> d | Some [] \<Rightarrow> d | Some (y # ys) \<Rightarrow> y # ys)"

text \<open>
  An optional transform applied to a value, as \<open>Imp1kDataset.__getitem__\<close> applies
  \<open>image_transform\<close> to the input image:
  \<open>if self.image_transform is not None: image = self.image_transform(image)\<close>.
\<close>

definition apply_opt :: "('i \<Rightarrow> 'i) option \<Rightarrow> 'i \<Rightarrow> 'i" where
  "apply_opt t x = (case t of None \<Rightarrow> x | Some f \<Rightarrow> f x)"

section \<open>Imp1kDataset (src/dataset/imp1k.py)\<close>

text \<open>
  The file system is a collaborator: \<open>glob\<close> maps a pattern to the paths
  \<open>glob.glob\<close> returns for it, in whatever order the operating system lists them.
  \<open>Image_open\<close> decodes a file, \<open>None\<close> when decoding raises. The downloader is not
  part of the sources at hand; the path it extracts to is a field of the dataset.
  Paths are Python \<open>str\<close>, compared by code point, which is the order of
  \<^theory_text>\<open>HOL-Library.Char_ord\<close> and \<^theory_text>\<open>HOL-Library.List_Lexorder\<close>.
\<close>

definition Imp1kCategories_all :: "string list" where
  "Imp1kCategories_all = [''ads'', ''infographics'', ''movie_posters'', ''webpages'']"

record 'i Imp1kDataset =
  categories :: "string list"
  image_transform :: "('i \<Rightarrow> 'i) option"
  map_transform :: "('i \<Rightarrow> 'i) option"
  extract_path :: string
  cache_image_map_paths_cashed :: bool
  image_map_pair_cache :: "(string \<times> string) list"

text \<open>
  The inner loop of \<open>cache_image_map_paths\<close>:
  \<^verbatim>\<open>
  for img_path, map_path in zip(images_path_list, maps_path_list):
      if path.basename(img_path) == path.basename(map_path):
          self.image_map_pair_cache.append((img_path, map_path))
  \<close>
\<close>

fun Imp1k_pairing :: "(string \<times> string) list \<Rightarrow> (string \<times> string) list \<Rightarrow> (string \<times> string) list" where
  "Imp1k_pairing cache [] = cache"
| "Imp1k_pairing cache ((img_path, map_path) # rest) =
     Imp1k_pairing
       (if basename img_path = basename map_path then cache @ [(img_path, map_path)] else cache)
       rest"

text \<open>The body of the loop over the categories, for one category.\<close>

definition Imp1k_category :: "(string \<Rightarrow> string list) \<Rightarrow> string \<Rightarrow> (string \<times> string) list \<Rightarrow> string \<Rightarrow> (string \<times> string) list" where
  "Imp1k_category glob ep cache category =
     (let images_dir = ep @ ''/imgs'';
          maps_dir = ep @ ''/maps'';
          images_path_list = sort (glob (path_join images_dir [category, ''*.jpg'']));
          maps_path_list = sort (glob (path_join maps_dir [category, ''*.jpg'']))
      in Imp1k_pairing cache (zip images_path_list maps_path_list))"

primrec Imp1k_categories_loop :: "(string \<Rightarrow> string list) \<Rightarrow> string \<Rightarrow> (string \<times> string) list \<Rightarrow> string list \<Rightarrow> (string \<times> string) list" where
  "Imp1k_categories_loop glob ep cache [] = cache"
| "Imp1k_categories_loop glob ep cache (category # rest) =
     Imp1k_categories_loop glob ep (Imp1k_category glob ep cache category) rest"

text \<open>
  \<open>cache_image_map_paths\<close>: returns at once when the flag is set, and otherwise appends
  to the pair cache. It does not assign the flag.
\<close>

definition Imp1k_cache_image_map_paths :: "(string \<Rightarrow> string list) \<Rightarrow> 'i Imp1kDataset \<Rightarrow> 'i Imp1kDataset" where
  "Imp1k_cache_image_map_paths glob self =
     (if Imp1kDataset.cache_image_map_paths_cashed self then self
      else self\<lparr>Imp1kDataset.image_map_pair_cache :=
        Imp1k_categories_loop glob (Imp1kDataset.extract_path self)
          (Imp1kDataset.image_map_pair_cache self) (Imp1kDataset.categories self)\<rparr>)"

text \<open>
  \<open>__init__\<close>. \<open>categories or Imp1kCategories.all\<close> takes the default for \<open>None\<close> and
  for the empty list. \<open>ep\<close> is \<open>self.downloader.extract_path\<close> after the download.
\<close>

definition Imp1k_init :: "(string \<Rightarrow> string list) \<Rightarrow> string \<Rightarrow> string list option \<Rightarrow> ('i \<Rightarrow> 'i) option \<Rightarrow> ('i \<Rightarrow> 'i) option \<Rightarrow> 'i Imp1kDataset" where
  "Imp1k_init glob ep cats image_tf map_tf =
     Imp1k_cache_image_map_paths glob
       \<lparr>Imp1kDataset.categories = py_or cats Imp1kCategories_all,
        Imp1kDataset.image_transform = image_tf,
        Imp1kDataset.map_transform = map_tf,
        Imp1kDataset.extract_path = ep,
        Imp1kDataset.cache_image_map_paths_cashed = False,
        Imp1kDataset.image_map_pair_cache = []\<rparr>"

definition Imp1k_len :: "'i Imp1kDataset \<Rightarrow> nat" where
  "Imp1k_len self = length (Imp1kDataset.image_map_pair_cache self)"

text \<open>
  \<open>__getitem__\<close>: the target goes through \<open>map_transform\<close> when there is one, else
  through \<open>image_transform\<close> when there is one, else it is returned as decoded.
\<close>

definition Imp1k_getitem :: "(string \<Rightarrow> 'i option) \<Rightarrow> 'i Imp1kDataset \<Rightarrow> int \<Rightarrow> error + ('i \<times> 'i)" where
  "Imp1k_getitem Image_open self index =
     (case py_getitem (Imp1kDataset.image_map_pair_cache self) index of
        Inl e \<Rightarrow> Inl e
      | Inr (image_path, map_path) \<Rightarrow>
          (case Image_open image_path of
             None \<Rightarrow> Inl DecodeError
           | Some img \<Rightarrow>
               (case Image_open map_path of
                  None \<Rightarrow> Inl DecodeError
                | Some map_image \<Rightarrow>
                    Inr (apply_opt (Imp1kDataset.image_transform self) img,
                         (case Imp1kDataset.map_transform self of
                            Some g \<Rightarrow> g map_image
                          | None \<Rightarrow>
                              (case Imp1kDataset.image_transform self of
                                 Some f \<Rightarrow> f map_image
                               | None \<Rightarrow> map_image))))))"

section \<open>SALICONDataset (src/dataset/salicon.py)\<close>

text \<open>
  Here the paths are \<open>pathlib\<close> paths. They are kept as strings: \<open>p / c\<close> is one step of
  the join above (pathlib also normalises repeated slashes and dots, which no statement
  below depends on), \<open>Path_glob d pat\<close> is what \<open>d.glob(pat)\<close> yields, and \<open>sorted\<close> on
  the entries of one directory orders them by their last component, as the string order
  does for paths with a common directory prefix.
\<close>

definition truediv :: "string \<Rightarrow> string \<Rightarrow> string" where
  "truediv p c = join_step p c"

record 'i SALICONDataset =
  categories :: "string list"
  image_transform :: "('i \<Rightarrow> 'i) option"
  map_transform :: "('i \<Rightarrow> 'i) option"
  image_extract_path :: string
  map_extract_path :: string
  image_map_pair_cache :: "(string \<times> string) list"

definition SALICON_category :: "(string \<Rightarrow> string \<Rightarrow> string list) \<Rightarrow> string \<Rightarrow> string \<Rightarrow> (string \<times> string) list \<Rightarrow> string \<Rightarrow> (string \<times> string) list" where
  "SALICON_category Path_glob iep mep cache category =
     (let images_dir = truediv (truediv iep category) ''images'';
          maps_dir = truediv (truediv mep category) ''maps'';
          images_path_list = sort (Path_glob images_dir ''*.jpg'');
          maps_path_list = sort (Path_glob maps_dir ''*.png'')
      in cache @ zip images_path_list maps_path_list)"

primrec SALICON_categories_loop :: "(string \<Rightarrow> string \<Rightarrow> string list) \<Rightarrow> string \<Rightarrow> string \<Rightarrow> (string \<times> string) list \<Rightarrow> string list \<Rightarrow> (string \<times> string) list" where
  "SALICON_categories_loop Path_glob iep mep cache [] = cache"
| "SALICON_categories_loop Path_glob iep mep cache (category # rest) =
     SALICON_categories_loop Path_glob iep mep (SALICON_category Path_glob iep mep cache category) rest"

text \<open>\<open>cache_image_map_paths\<close>: no flag, every call extends the pair cache.\<close>

definition SALICON_cache_image_map_paths :: "(string \<Rightarrow> string \<Rightarrow> string list) \<Rightarrow> 'i SALICONDataset \<Rightarrow> 'i SALICONDataset" where
  "SALICON_cache_image_map_paths Path_glob self =
     self\<lparr>SALICONDataset.image_map_pair_cache :=
       SALICON_categories_loop Path_glob (SALICONDataset.image_extract_path self)
         (SALICONDataset.map_extract_path self)
         (SALICONDataset.image_map_pair_cache self) (SALICONDataset.categories self)\<rparr>"

definition SALICON_init :: "(string \<Rightarrow> string \<Rightarrow> string list) \<Rightarrow> string \<Rightarrow> string \<Rightarrow> string list option \<Rightarrow> ('i \<Rightarrow> 'i) option \<Rightarrow> ('i \<Rightarrow> 'i) option \<Rightarrow> 'i SALICONDataset" where
  "SALICON_init Path_glob iep mep cats image_tf map_tf =
     SALICON_cache_image_map_paths Path_glob
       \<lparr>SALICONDataset.categories = py_or cats [''test'', ''train''],
        SALICONDataset.image_transform = image_tf,
        SALICONDataset.map_transform = map_tf,
        SALICONDataset.image_extract_path = iep,
        SALICONDataset.map_extract_path = mep,
        SALICONDataset.image_map_pair_cache = []\<rparr>"

definition SALICON_len :: "'i SALICONDataset \<Rightarrow> nat" where
  "SALICON_len self = length (SALICONDataset.image_map_pair_cache self)"

text \<open>
  \<open>__getitem__\<close>: \<open>convert mode\<close> is \<open>Image.convert(mode)\<close>. Both transforms sit inside
  \<open>if self.image_transform is not None\<close>.
\<close>

definition SALICON_getitem :: "(string \<Rightarrow> 'i option) \<Rightarrow> (string \<Rightarrow> 'i \<Rightarrow> 'i) \<Rightarrow> 'i SALICONDataset \<Rightarrow> int \<Rightarrow> error + ('i \<times> 'i)" where
  "SALICON_getitem Image_open convert self index =
     (case py_getitem (SALICONDataset.image_map_pair_cache self) index of
        Inl e \<Rightarrow> Inl e
      | Inr (image_path, map_path) \<Rightarrow>
          (case Image_open image_path of
             None \<Rightarrow> Inl DecodeError
           | Some opened_image \<Rightarrow>
               (case Image_open map_path of
                  None \<Rightarrow> Inl DecodeError
                | Some opened_map \<Rightarrow>
                    (let img = convert ''RGB'' opened_image; map_image = convert ''L'' opened_map
                     in case SALICONDataset.image_transform self of
                          None \<Rightarrow> Inr (img, map_image)
                        | Some f \<Rightarrow>
                            Inr (f img,
                                 (case SALICONDataset.map_transform self of
                                    Some g \<Rightarrow> g map_image
                                  | None \<Rightarrow> f map_image))))))"

section \<open>The sorted listings of a category, and sample directories\<close>

text \<open>
  Names for the two sorted listings \<open>cache_image_map_paths\<close> pairs up, so that
  statements about the catalog can mention them.
\<close>

definition Imp1k_images_path_list :: "(string \<Rightarrow> string list) \<Rightarrow> string \<Rightarrow> string \<Rightarrow> string list" where
  "Imp1k_images_path_list glob ep category = sort (glob (path_join (ep @ ''/imgs'') [category, ''*.jpg'']))"

definition Imp1k_maps_path_list :: "(string \<Rightarrow> string list) \<Rightarrow> string \<Rightarrow> string \<Rightarrow> string list" where
  "Imp1k_maps_path_list glob ep category = sort (glob (path_join (ep @ ''/maps'') [category, ''*.jpg'']))"

definition SALICON_images_path_list :: "(string \<Rightarrow> string \<Rightarrow> string list) \<Rightarrow> string \<Rightarrow> string \<Rightarrow> string list" where
  "SALICON_images_path_list Path_glob iep category =
     sort (Path_glob (truediv (truediv iep category) ''images'') ''*.jpg'')"

definition SALICON_maps_path_list :: "(string \<Rightarrow> string \<Rightarrow> string list) \<Rightarrow> string \<Rightarrow> string \<Rightarrow> string list" where
  "SALICON_maps_path_list Path_glob mep category =
     sort (Path_glob (truediv (truediv mep category) ''maps'') ''*.png'')"

definition same_basename :: "string \<times> string \<Rightarrow> bool" where
  "same_basename pr = (basename (fst pr) = basename (snd pr))"

text \<open>
  A directory tree for the first variant, extracted to \<open>r\<close>: category \<open>ads\<close> holds the
  images \<open>a.jpg\<close>, \<open>b.jpg\<close>, \<open>c.jpg\<close> and the maps \<open>a.jpg\<close>, \<open>X.jpg\<close>, \<open>c.jpg\<close>;
  category \<open>webpages\<close> holds the images \<open>p.jpg\<close>, \<open>q.jpg\<close>, \<open>z.jpg\<close> and the maps
  \<open>p.jpg\<close>, \<open>q.jpg\<close>. The listings come back unsorted.
\<close>

definition scenario_glob :: "string \<Rightarrow> string list" where
  "scenario_glob pattern =
     (if pattern = ''r/imgs/ads/*.jpg'' then [''r/imgs/ads/b.jpg'', ''r/imgs/ads/a.jpg'', ''r/imgs/ads/c.jpg'']
      else if pattern = ''r/maps/ads/*.jpg'' then [''r/maps/ads/a.jpg'', ''r/maps/ads/X.jpg'', ''r/maps/ads/c.jpg'']
      else if pattern = ''r/imgs/webpages/*.jpg'' then [''r/imgs/webpages/z.jpg'', ''r/imgs/webpages/p.jpg'', ''r/imgs/webpages/q.jpg'']
      else if pattern = ''r/maps/webpages/*.jpg'' then [''r/maps/webpages/q.jpg'', ''r/maps/webpages/p.jpg'']
      else [])"

text \<open>
  A directory tree for the second variant: under \<open>s/train\<close>, the images \<open>1.jpg\<close>, \<open>2.jpg\<close>
  and the maps \<open>1.png\<close>, \<open>2.png\<close>.
\<close>

definition scenario_Path_glob :: "string \<Rightarrow> string \<Rightarrow> string list" where
  "scenario_Path_glob dir pattern =
     (if dir = ''s/train/images'' \<and> pattern = ''*.jpg'' then [''s/train/images/2.jpg'', ''s/train/images/1.jpg'']
      else if dir = ''s/train/maps'' \<and> pattern = ''*.png'' then [''s/train/maps/1.png'', ''s/train/maps/2.png'']
      else [])"

text \<open>A decoder that reads every file as the length of its path, and transforms on numbers.\<close>

definition scenario_open :: "string \<Rightarrow> nat option" where
  "scenario_open p = Some (length p)"

definition scenario_convert :: "string \<Rightarrow> nat \<Rightarrow> nat" where
  "scenario_convert mode x = x"

definition double :: "nat \<Rightarrow> nat" where
  "double x = 2 * x"

text \<open>A dataset of the first variant whose flag is set.\<close>

definition flagged_Imp1k :: "nat Imp1kDataset" where
  "flagged_Imp1k =
     \<lparr>Imp1kDataset.categories = [''ads''], Imp1kDataset.image_transform = None,
      Imp1kDataset.map_transform = None, Imp1kDataset.extract_path = ''r'',
      Imp1kDataset.cache_image_map_paths_cashed = True,
      Imp1kDataset.image_map_pair_cache = [(''r/imgs/ads/c.jpg'', ''r/maps/ads/c.jpg'')]\<rparr>"

text \<open>
  Two datasets, one of each variant, configured with a \<open>map_transform\<close> and no
  \<open>image_transform\<close>.
\<close>

definition map_only_Imp1k :: "nat Imp1kDataset" where
  "map_only_Imp1k = Imp1k_init scenario_glob ''r'' (Some [''ads'', ''webpages'']) None (Some double)"

definition map_only_SALICON :: "nat SALICONDataset" where
  "map_only_SALICON = SALICON_init scenario_Path_glob ''s'' ''s'' (Some [''train'']) None (Some double)"

section \<open>Epoch runners (src/illust_salmap/training/train.py)\<close>

text \<open>
  The network, the criterion, automatic differentiation and the optimizer are
  collaborators, given as functions. \<open>forward_fn mode p x\<close> is \<open>model(x)\<close> with
  parameters \<open>p\<close> in training or evaluation mode; \<open>criterion_fn\<close> is the loss as the
  number \<open>loss.item()\<close> reads, with Python floats idealised as reals;
  \<open>backward_fn mode p x y\<close> is the gradient \<open>loss.backward()\<close> computes for the batch
  \<open>(x, y)\<close>, \<open>grad_add\<close> how it accumulates onto a gradient already stored;
  \<open>step_fn\<close> is \<open>optimizer.step()\<close>. The remaining fields are the helpers of
  \<open>illust_salmap.training.metrics\<close>, which is not among the sources at hand, and
  \<open>first_sample\<close>, the tensor indexing \<open>t[0]\<close>. Moving a tensor to a device, detaching
  and cloning it do not change its value.
\<close>

record ('p, 'o, 't) collaborators =
  forward_fn :: "bool \<Rightarrow> 'p \<Rightarrow> 't \<Rightarrow> 't"
  criterion_fn :: "'t \<Rightarrow> 't \<Rightarrow> real"
  backward_fn :: "bool \<Rightarrow> 'p \<Rightarrow> 't \<Rightarrow> 't \<Rightarrow> 'p"
  grad_add :: "'p \<Rightarrow> 'p \<Rightarrow> 'p"
  step_fn :: "'o \<Rightarrow> 'p \<Rightarrow> 'p option \<Rightarrow> 'o \<times> 'p"
  convert_kl_div :: "'t \<Rightarrow> 't \<Rightarrow> 't \<times> 't"
  convert_sim :: "'t \<Rightarrow> 't \<Rightarrow> 't \<times> 't"
  convert_scc :: "'t \<Rightarrow> 't \<Rightarrow> 't \<times> 't"
  convert_auroc :: "'t \<Rightarrow> 't \<Rightarrow> 't \<times> 't"
  normalized :: "'t \<Rightarrow> 't"
  first_sample :: "'t \<Rightarrow> 't"

text \<open>
  The mutable state a module and its optimizer share: the parameters, the gradient
  stored on them (\<open>None\<close> after \<open>zero_grad\<close>), the \<open>training\<close> flag that
  \<open>model.train()\<close> and \<open>model.eval()\<close> set, and the optimizer's own state.
\<close>

record ('p, 'o) learner =
  params :: 'p
  grads :: "'p option"
  training :: bool
  opt_state :: 'o

definition zero_grad :: "('p, 'o) learner \<Rightarrow> ('p, 'o) learner" where
  "zero_grad L = L\<lparr>grads := None\<rparr>"

definition forward :: "('p, 'o, 't) collaborators \<Rightarrow> ('p, 'o) learner \<Rightarrow> 't \<Rightarrow> 't" where
  "forward C L x = forward_fn C (training L) (params L) x"

definition backward :: "('p, 'o, 't) collaborators \<Rightarrow> ('p, 'o) learner \<Rightarrow> 't \<Rightarrow> 't \<Rightarrow> ('p, 'o) learner" where
  "backward C L x y =
     (let g = backward_fn C (training L) (params L) x y
      in L\<lparr>grads := Some (case grads L of None \<Rightarrow> g | Some g0 \<Rightarrow> grad_add C g0 g)\<rparr>)"

definition optimizer_step :: "('p, 'o, 't) collaborators \<Rightarrow> ('p, 'o) learner \<Rightarrow> ('p, 'o) learner" where
  "optimizer_step C L =
     (case step_fn C (opt_state L) (params L) (grads L) of
        (s, p) \<Rightarrow> L\<lparr>params := p, opt_state := s\<rparr>)"

text \<open>
  One iteration of the loop of \<open>train\<close>, on the pair of the running \<open>epoch_loss\<close> and the
  state:
  \<^verbatim>\<open>
  optimizer.zero_grad()
  predict = model(image)
  loss = criterion(predict, ground_truth)
  epoch_loss += loss.item()
  loss.backward()
  optimizer.step()
  \<close>
\<close>

definition train_batch :: "('p, 'o, 't) collaborators \<Rightarrow> real \<times> ('p, 'o) learner \<Rightarrow> 't \<times> 't \<Rightarrow> real \<times> ('p, 'o) learner" where
  "train_batch C acc batch =
     (case acc of (epoch_loss, L) \<Rightarrow>
      case batch of (img, ground_truth) \<Rightarrow>
        (let L1 = zero_grad L;
             predict = forward C L1 img;
             loss = criterion_fn C predict ground_truth
         in (epoch_loss + loss, optimizer_step C (backward C L1 img ground_truth))))"

primrec train_loop :: "('p, 'o, 't) collaborators \<Rightarrow> real \<times> ('p, 'o) learner \<Rightarrow> ('t \<times> 't) list \<Rightarrow> real \<times> ('p, 'o) learner" where
  "train_loop C acc [] = acc"
| "train_loop C acc (batch # rest) = train_loop C (train_batch C acc batch) rest"

text \<open>
  \<open>train\<close>. The data loader is the list of its batches and \<open>len(dataloader)\<close> their
  number. \<open>epoch_loss / len(dataloader)\<close> is a float divided by an int: Python raises
  \<open>ZeroDivisionError\<close> when the int is zero. The result is the value under the key
  \<open>"loss"\<close>, with the state the call leaves behind.
\<close>

definition train :: "('p, 'o, 't) collaborators \<Rightarrow> ('p, 'o) learner \<Rightarrow> ('t \<times> 't) list \<Rightarrow> error + (real \<times> ('p, 'o) learner)" where
  "train C L dataloader =
     (case train_loop C (0, L\<lparr>training := True\<rparr>) dataloader of
        (epoch_loss, L') \<Rightarrow>
          if length dataloader = 0 then Inl ZeroDivisionError
          else Inr (epoch_loss / real (length dataloader), L'))"

text \<open>One iteration of the loops of \<open>validation\<close> and \<open>test\<close>: forward pass and loss only.\<close>

definition eval_batch :: "('p, 'o, 't) collaborators \<Rightarrow> real \<times> ('p, 'o) learner \<Rightarrow> 't \<times> 't \<Rightarrow> real \<times> ('p, 'o) learner" where
  "eval_batch C acc batch =
     (case acc of (epoch_loss, L) \<Rightarrow>
      case batch of (img, ground_truth) \<Rightarrow>
        (let predict = forward C L img;
             loss = criterion_fn C predict ground_truth
         in (epoch_loss + loss, L)))"

primrec eval_loop :: "('p, 'o, 't) collaborators \<Rightarrow> real \<times> ('p, 'o) learner \<Rightarrow> ('t \<times> 't) list \<Rightarrow> real \<times> ('p, 'o) learner" where
  "eval_loop C acc [] = acc"
| "eval_loop C acc (batch # rest) = eval_loop C (eval_batch C acc batch) rest"

definition validation :: "('p, 'o, 't) collaborators \<Rightarrow> ('p, 'o) learner \<Rightarrow> ('t \<times> 't) list \<Rightarrow> error + (real \<times> ('p, 'o) learner)" where
  "validation C L dataloader =
     (case eval_loop C (0, L\<lparr>training := False\<rparr>) dataloader of
        (epoch_loss, L') \<Rightarrow>
          if length dataloader = 0 then Inl ZeroDivisionError
          else Inr (epoch_loss / real (length dataloader), L'))"

text \<open>\<open>test\<close> differs from \<open>validation\<close> by \<open>model.to(device)\<close> only, which keeps every value.\<close>

definition test :: "('p, 'o, 't) collaborators \<Rightarrow> ('p, 'o) learner \<Rightarrow> ('t \<times> 't) list \<Rightarrow> error + (real \<times> ('p, 'o) learner)" where
  "test C L dataloader =
     (case eval_loop C (0, L\<lparr>training := False\<rparr>) dataloader of
        (epoch_loss, L') \<Rightarrow>
          if length dataloader = 0 then Inl ZeroDivisionError
          else Inr (epoch_loss / real (length dataloader), L'))"

section \<open>SaliencyModel (src/illust_salmap/models/saliency_model.py)\<close>

text \<open>\<open>str\<close> of a Python int, as the f-strings of \<open>save_image\<close> format the epoch.\<close>

fun str_nat :: "nat \<Rightarrow> string" where
  "str_nat n =
     (if n < 10 then [''0123456789'' ! n]
      else str_nat (n div 10) @ [''0123456789'' ! (n mod 10)])"

declare str_nat.simps [simp del]

definition str_int :: "int \<Rightarrow> string" where
  "str_int i = (if i < 0 then CHR ''-'' # str_nat (nat (- i)) else str_nat (nat i))"

text \<open>
  The figure \<open>save_image\<close> draws: its title and the three panels. The raster read back
  from the canvas is a function of the figure and is identified with it.
\<close>

record 't figure =
  suptitle :: string
  input_panel :: 't
  ground_truth_panel :: 't
  predict_panel :: 't

text \<open>
  A logger is a TensorBoard logger, holding the \<open>add_image\<close> calls it has received as
  (tag, image data, global step), or some other logger.
\<close>

datatype 'r logger = TensorBoardLogger "(string \<times> 'r \<times> int) list" | OtherLogger

datatype log_value = Scalar real | Metric string

text \<open>
  The state of the Lightning module: the network with its optimizer; the twelve metric
  objects, addressed by attribute name, each as the list of the (prediction, reference)
  pairs it has been updated with; the entries passed to \<open>self.log\<close>; the loggers; the
  trainer's \<open>num_training_batches\<close>, \<open>num_test_batches\<close> and \<open>current_epoch\<close>; and the
  figures drawn so far, one for each call of \<open>save_image\<close>.
\<close>

record ('p, 'o, 't) SaliencyModel =
  net :: "('p, 'o) learner"
  metrics :: "string \<Rightarrow> ('t \<times> 't) list"
  logged :: "(string \<times> log_value) list"
  loggers :: "'t figure logger list"
  num_training_batches :: int
  num_test_batches :: "int list"
  current_epoch :: int
  figures :: "'t figure list"

definition metric_update :: "string \<Rightarrow> 't \<times> 't \<Rightarrow> ('p, 'o, 't) SaliencyModel \<Rightarrow> ('p, 'o, 't) SaliencyModel" where
  "metric_update name pg M = M\<lparr>metrics := (metrics M)(name := metrics M name @ [pg])\<rparr>"

text \<open>\<open>self.log(name, value)\<close>, named so as not to hide the logarithm.\<close>

definition self_log :: "string \<Rightarrow> log_value \<Rightarrow> ('p, 'o, 't) SaliencyModel \<Rightarrow> ('p, 'o, 't) SaliencyModel" where
  "self_log name v M = M\<lparr>logged := logged M @ [(name, v)]\<rparr>"

text \<open>
  The part the three step methods share: the four conversions of the detached
  prediction and target, the four metric updates and the five log entries, for the
  split whose attribute prefix is \<open>split\<close> (\<open>train\<close>, \<open>val\<close> or \<open>test\<close>).
\<close>

definition accumulate :: "('p, 'o, 't) collaborators \<Rightarrow> string \<Rightarrow> 't \<Rightarrow> 't \<Rightarrow> real \<Rightarrow> ('p, 'o, 't) SaliencyModel \<Rightarrow> ('p, 'o, 't) SaliencyModel" where
  "accumulate C split detached_pred detached_ground loss M =
     (let M1 = metric_update (split @ ''_kl_div'') (convert_kl_div C detached_pred detached_ground) M;
          M2 = metric_update (split @ ''_sim'') (convert_sim C detached_pred detached_ground) M1;
          M3 = metric_update (split @ ''_scc'') (convert_scc C detached_pred detached_ground) M2;
          M4 = metric_update (split @ ''_auroc'') (convert_auroc C detached_pred detached_ground) M3;
          M5 = self_log (split @ ''_loss'') (Scalar loss) M4;
          M6 = self_log (split @ ''_kl_div'') (Metric (split @ ''_kl_div'')) M5;
          M7 = self_log (split @ ''_sim'') (Metric (split @ ''_sim'')) M6;
          M8 = self_log (split @ ''_scc'') (Metric (split @ ''_scc'')) M7
      in self_log (split @ ''_auroc'') (Metric (split @ ''_auroc'')) M8)"

text \<open>
  \<open>training_step\<close>: clears the gradient, runs the forward pass and the loss, feeds the
  metrics and the log, then \<open>manual_backward\<close> and \<open>optimizer.step()\<close>. Returns the loss.
\<close>

definition training_step :: "('p, 'o, 't) collaborators \<Rightarrow> ('p, 'o, 't) SaliencyModel \<Rightarrow> 't \<times> 't \<Rightarrow> int \<Rightarrow> real \<times> ('p, 'o, 't) SaliencyModel" where
  "training_step C M batch batch_idx =
     (case batch of (img, ground_truth) \<Rightarrow>
        (let L1 = zero_grad (net M);
             predict = forward C L1 img;
             loss = criterion_fn C predict ground_truth;
             M1 = accumulate C ''train'' predict ground_truth loss (M\<lparr>net := L1\<rparr>)
         in (loss, M1\<lparr>net := optimizer_step C (backward C L1 img ground_truth)\<rparr>)))"

definition validation_step :: "('p, 'o, 't) collaborators \<Rightarrow> ('p, 'o, 't) SaliencyModel \<Rightarrow> 't \<times> 't \<Rightarrow> int \<Rightarrow> real \<times> ('p, 'o, 't) SaliencyModel" where
  "validation_step C M batch batch_idx =
     (case batch of (img, ground_truth) \<Rightarrow>
        (let predict = forward C (net M) img;
             loss = criterion_fn C predict ground_truth
         in (loss, accumulate C ''val'' predict ground_truth loss M)))"

text \<open>\<open>test_step\<close> has no \<open>return\<close>: only the state comes back.\<close>

definition test_step :: "('p, 'o, 't) collaborators \<Rightarrow> ('p, 'o, 't) SaliencyModel \<Rightarrow> 't \<times> 't \<Rightarrow> int \<Rightarrow> ('p, 'o, 't) SaliencyModel" where
  "test_step C M batch batch_idx =
     (case batch of (img, ground_truth) \<Rightarrow>
        (let predict = forward C (net M) img;
             loss = criterion_fn C predict ground_truth
         in accumulate C ''test'' predict ground_truth loss M))"

fun add_image :: "string \<Rightarrow> 'r \<Rightarrow> int \<Rightarrow> 'r logger \<Rightarrow> 'r logger" where
  "add_image tag image_data global_step (TensorBoardLogger received) =
     TensorBoardLogger (received @ [(tag, image_data, global_step)])"
| "add_image tag image_data global_step OtherLogger = OtherLogger"

text \<open>
  \<open>save_image\<close>: normalises the three batches, draws the first sample of each, and hands
  the picture to every TensorBoard logger under the tag
  \<open>f"{stage}_images_epoch_{epoch}"\<close> with the epoch as the global step.
\<close>

definition draw_figure :: "('p, 'o, 't) collaborators \<Rightarrow> string \<Rightarrow> int \<Rightarrow> 't \<Rightarrow> 't \<Rightarrow> 't \<Rightarrow> 't figure" where
  "draw_figure C stage epoch images ground_truths predicts =
     \<lparr>suptitle = stage @ '' epoch: '' @ str_int epoch,
      input_panel = first_sample C (normalized C images),
      ground_truth_panel = first_sample C (normalized C ground_truths),
      predict_panel = first_sample C (normalized C predicts)\<rparr>"

definition save_image :: "('p, 'o, 't) collaborators \<Rightarrow> ('p, 'o, 't) SaliencyModel \<Rightarrow> string \<Rightarrow> int \<Rightarrow> 't \<Rightarrow> 't \<Rightarrow> 't \<Rightarrow> ('p, 'o, 't) SaliencyModel" where
  "save_image C M stage epoch images ground_truths predicts =
     (let fig = draw_figure C stage epoch images ground_truths predicts
      in M\<lparr>loggers := map (add_image (stage @ ''_images_epoch_'' @ str_int epoch) fig epoch) (loggers M),
            figures := figures M @ [fig]\<rparr>)"

text \<open>The three hooks. Each recomputes the forward pass on the batch it is given.\<close>

definition on_train_batch_end :: "('p, 'o, 't) collaborators \<Rightarrow> ('p, 'o, 't) SaliencyModel \<Rightarrow> 't \<times> 't \<Rightarrow> int \<Rightarrow> ('p, 'o, 't) SaliencyModel" where
  "on_train_batch_end C M batch batch_idx =
     (if batch_idx = num_training_batches M - 1 then
        (case batch of (img, ground_truth) \<Rightarrow>
           save_image C M ''training'' (current_epoch M) img ground_truth (forward C (net M) img))
      else M)"

definition on_validation_batch_end :: "('p, 'o, 't) collaborators \<Rightarrow> ('p, 'o, 't) SaliencyModel \<Rightarrow> 't \<times> 't \<Rightarrow> int \<Rightarrow> ('p, 'o, 't) SaliencyModel" where
  "on_validation_batch_end C M batch batch_idx =
     (if batch_idx = 0 then
        (case batch of (img, ground_truth) \<Rightarrow>
           save_image C M ''validation'' (current_epoch M) img ground_truth (forward C (net M) img))
      else M)"

text \<open>\<open>self.trainer.num_test_batches[0]\<close> is a list access and raises on an empty list.\<close>

definition on_test_batch_end :: "('p, 'o, 't) collaborators \<Rightarrow> ('p, 'o, 't) SaliencyModel \<Rightarrow> 't \<times> 't \<Rightarrow> int \<Rightarrow> error + ('p, 'o, 't) SaliencyModel" where
  "on_test_batch_end C M batch batch_idx =
     (case py_getitem (num_test_batches M) 0 of
        Inl e \<Rightarrow> Inl e
      | Inr n \<Rightarrow>
          if batch_idx = n - 1 then
            (case batch of (img, ground_truth) \<Rightarrow>
               Inr (save_image C M ''test'' (current_epoch M) img ground_truth (forward C (net M) img)))
          else Inr M)"

text \<open>
  The loops that call the methods above belong to Lightning, not to the repository.
  They are written here after its contract: the batches are numbered from zero, and for
  each batch the step method runs first and the batch-end hook second, on the same batch
  and index.
\<close>

fun training_batches :: "('p, 'o, 't) collaborators \<Rightarrow> ('p, 'o, 't) SaliencyModel \<Rightarrow> int \<Rightarrow> ('t \<times> 't) list \<Rightarrow> ('p, 'o, 't) SaliencyModel" where
  "training_batches C M batch_idx [] = M"
| "training_batches C M batch_idx (batch # rest) =
     training_batches C
       (on_train_batch_end C (snd (training_step C M batch batch_idx)) batch batch_idx)
       (batch_idx + 1) rest"

fun validation_batches :: "('p, 'o, 't) collaborators \<Rightarrow> ('p, 'o, 't) SaliencyModel \<Rightarrow> int \<Rightarrow> ('t \<times> 't) list \<Rightarrow> ('p, 'o, 't) SaliencyModel" where
  "validation_batches C M batch_idx [] = M"
| "validation_batches C M batch_idx (batch # rest) =
     validation_batches C
       (on_validation_batch_end C (snd (validation_step C M batch batch_idx)) batch batch_idx)
       (batch_idx + 1) rest"

fun test_batches :: "('p, 'o, 't) collaborators \<Rightarrow> ('p, 'o, 't) SaliencyModel \<Rightarrow> int \<Rightarrow> ('t \<times> 't) list \<Rightarrow> error + ('p, 'o, 't) SaliencyModel" where
  "test_batches C M batch_idx [] = Inr M"
| "test_batches C M batch_idx (batch # rest) =
     (case on_test_batch_end C (test_step C M batch batch_idx) batch batch_idx of
        Inl e \<Rightarrow> Inl e
      | Inr M' \<Rightarrow> test_batches C M' (batch_idx + 1) rest)"

section \<open>Per-batch losses, and a small network\<close>

text \<open>
  The loss of one batch in a given state, and the list of the losses an epoch of \<open>train\<close>
  meets: each batch is scored in the state the batches before it have left.
\<close>

definition batch_loss :: "('p, 'o, 't) collaborators \<Rightarrow> ('p, 'o) learner \<Rightarrow> 't \<times> 't \<Rightarrow> real" where
  "batch_loss C L batch = criterion_fn C (forward C L (fst batch)) (snd batch)"

primrec train_losses :: "('p, 'o, 't) collaborators \<Rightarrow> ('p, 'o) learner \<Rightarrow> ('t \<times> 't) list \<Rightarrow> real list" where
  "train_losses C L [] = []"
| "train_losses C L (batch # rest) =
     batch_loss C L batch # train_losses C (snd (train_batch C (0, L) batch)) rest"

text \<open>
  A network with one real parameter \<open>p\<close> that predicts \<open>p * x\<close>, the squared error as
  criterion with its gradient, and gradient descent with step size one half whose state
  counts the steps taken. Tensors are single numbers; the metric helpers keep them as
  they are.
\<close>

definition toy_forward :: "bool \<Rightarrow> real \<Rightarrow> real \<Rightarrow> real" where
  "toy_forward mode p x = p * x"

definition toy_criterion :: "real \<Rightarrow> real \<Rightarrow> real" where
  "toy_criterion y g = (y - g) * (y - g)"

definition toy_backward :: "bool \<Rightarrow> real \<Rightarrow> real \<Rightarrow> real \<Rightarrow> real" where
  "toy_backward mode p x g = 2 * (p * x - g) * x"

definition toy_step :: "nat \<Rightarrow> real \<Rightarrow> real option \<Rightarrow> nat \<times> real" where
  "toy_step s p g = (Suc s, p - (case g of None \<Rightarrow> 0 | Some d \<Rightarrow> d) / 2)"

definition toy_pair :: "real \<Rightarrow> real \<Rightarrow> real \<times> real" where
  "toy_pair y g = (y, g)"

definition toy_same :: "real \<Rightarrow> real" where
  "toy_same x = x"

definition toy :: "(real, nat, real) collaborators" where
  "toy = \<lparr>forward_fn = toy_forward, criterion_fn = toy_criterion, backward_fn = toy_backward,
          grad_add = (+), step_fn = toy_step,
          convert_kl_div = toy_pair, convert_sim = toy_pair, convert_scc = toy_pair,
          convert_auroc = toy_pair, normalized = toy_same, first_sample = toy_same\<rparr>"

definition toy_learner :: "(real, nat) learner" where
  "toy_learner = \<lparr>params = 1, grads = None, training = False, opt_state = 0\<rparr>"

definition no_updates :: "string \<Rightarrow> (real \<times> real) list" where
  "no_updates name = []"

text \<open>
  A module around that network in epoch 0, with one TensorBoard logger and one other
  logger, in a run of two training batches and two test batches.
\<close>

definition toy_model :: "(real, nat, real) SaliencyModel" where
  "toy_model = \<lparr>net = toy_learner, metrics = no_updates, logged = [],
                loggers = [TensorBoardLogger [], OtherLogger],
                num_training_batches = 2, num_test_batches = [2], current_epoch = 0,
                figures = []\<rparr>"

definition toy_batches :: "(real \<times> real) list" where
  "toy_batches = [(1, 2), (2, 2)]"

text \<open>The state \<open>train\<close> leaves the small network in after the two sample batches.\<close>

definition toy_trained :: "(real, nat) learner" where
  "toy_trained = \<lparr>params = - 2, grads = Some 8, training = True, opt_state = 2\<rparr>"

text \<open>The sample module around the trained network, as it stands later in training.\<close>

definition toy_model_late :: "(real, nat, real) SaliencyModel" where
  "toy_model_late = toy_model\<lparr>net := toy_trained\<rparr>"

section \<open>The paired-sample catalog\<close>

text \<open>
  Below, the first variant is \<open>Imp1kDataset\<close> and the second \<open>SALICONDataset\<close>.
  Both builds append to the pair cache. The first variant appends, for each category in
  the configured order, the positional pairs of the two sorted listings that have the
  same base filename; the second appends every positional pair.
\<close>

lemma Imp1k_pairing_filter: "Imp1k_pairing cache zs = cache @ filter same_basename zs"
  by (induction zs arbitrary: cache) (auto simp: same_basename_def)

lemma Imp1k_category_eq:
  "Imp1k_category glob ep cache c =
     cache @ filter same_basename (zip (Imp1k_images_path_list glob ep c) (Imp1k_maps_path_list glob ep c))"
  by (simp add: Imp1k_category_def Imp1k_pairing_filter Imp1k_images_path_list_def Imp1k_maps_path_list_def)

lemma Imp1k_categories_loop_eq:
  "Imp1k_categories_loop glob ep cache cs =
     cache @ concat (map (\<lambda>c. filter same_basename (zip (Imp1k_images_path_list glob ep c) (Imp1k_maps_path_list glob ep c))) cs)"
  by (induction cs arbitrary: cache) (simp_all add: Imp1k_category_eq)

lemma Imp1k_init_cache:
  "Imp1kDataset.image_map_pair_cache (Imp1k_init glob ep cats itf mtf) =
     concat (map (\<lambda>c. filter same_basename (zip (Imp1k_images_path_list glob ep c) (Imp1k_maps_path_list glob ep c)))
       (py_or cats Imp1kCategories_all))"
  by (simp add: Imp1k_init_def Imp1k_cache_image_map_paths_def Imp1k_categories_loop_eq)

lemma SALICON_categories_loop_eq:
  "SALICON_categories_loop pg iep mep cache cs =
     cache @ concat (map (\<lambda>c. zip (SALICON_images_path_list pg iep c) (SALICON_maps_path_list pg mep c)) cs)"
  by (induction cs arbitrary: cache)
     (simp_all add: SALICON_category_def SALICON_images_path_list_def SALICON_maps_path_list_def)

lemma SALICON_init_cache:
  "SALICONDataset.image_map_pair_cache (SALICON_init pg iep mep cats itf mtf) =
     concat (map (\<lambda>c. zip (SALICON_images_path_list pg iep c) (SALICON_maps_path_list pg mep c))
       (py_or cats [''test'', ''train'']))"
  by (simp add: SALICON_init_def SALICON_cache_image_map_paths_def SALICON_categories_loop_eq)

lemma py_getitem_in_set: "py_getitem xs i = Inr x \<Longrightarrow> x \<in> set xs"
  by (auto simp: py_getitem_def split: if_splits)

text \<open>The catalogs built over the sample directories.\<close>

lemma scenario_Imp1k_ads:
  "Imp1kDataset.image_map_pair_cache (Imp1k_init scenario_glob ''r'' (Some [''ads'']) None None :: nat Imp1kDataset)
   = [(''r/imgs/ads/c.jpg'', ''r/maps/ads/c.jpg'')]"
  by code_simp

lemma scenario_Imp1k_two:
  "Imp1kDataset.image_map_pair_cache (Imp1k_init scenario_glob ''r'' (Some [''ads'', ''webpages'']) None None :: nat Imp1kDataset)
   = [(''r/imgs/ads/c.jpg'', ''r/maps/ads/c.jpg''), (''r/imgs/webpages/p.jpg'', ''r/maps/webpages/p.jpg''),
      (''r/imgs/webpages/q.jpg'', ''r/maps/webpages/q.jpg'')]"
  by code_simp

lemma scenario_SALICON_train:
  "SALICONDataset.image_map_pair_cache (SALICON_init scenario_Path_glob ''s'' ''s'' (Some [''train'']) None None :: nat SALICONDataset)
   = [(''s/train/images/1.jpg'', ''s/train/maps/1.png''), (''s/train/images/2.jpg'', ''s/train/maps/2.png'')]"
  by code_simp

text \<open>
  C1 (amended). In a catalog built by the first variant, the pair found at any index
  that list access accepts has equal base filenames, and the catalog is exactly, category
  by category, the positional pairs of the two sorted listings whose base filenames are
  equal: the others are left out, and the build has no failing branch. The second variant
  compares no filenames: its catalog is, category by category, every positional pair of
  the sorted image and map listings.
\<close>

theorem C1_catalog_basenames:
  "(\<forall>index ip mp.
      py_getitem (Imp1kDataset.image_map_pair_cache (Imp1k_init glob ep cats itf mtf)) index = Inr (ip, mp)
      \<longrightarrow> basename ip = basename mp)
   \<and> Imp1kDataset.image_map_pair_cache (Imp1k_init glob ep cats itf mtf) =
       concat (map (\<lambda>c. filter same_basename
                 (zip (Imp1k_images_path_list glob ep c) (Imp1k_maps_path_list glob ep c)))
               (py_or cats Imp1kCategories_all))
   \<and> SALICONDataset.image_map_pair_cache (SALICON_init Path_glob iep mep cats' itf' mtf') =
       concat (map (\<lambda>c. zip (SALICON_images_path_list Path_glob iep c) (SALICON_maps_path_list Path_glob mep c))
               (py_or cats' [''test'', ''train'']))"
proof (intro conjI allI impI)
  fix index ip mp
  assume "py_getitem (Imp1kDataset.image_map_pair_cache (Imp1k_init glob ep cats itf mtf)) index = Inr (ip, mp)"
  then have "(ip, mp) \<in> set (Imp1kDataset.image_map_pair_cache (Imp1k_init glob ep cats itf mtf))"
    by (rule py_getitem_in_set)
  then show "basename ip = basename mp"
    by (auto simp: Imp1k_init_cache same_basename_def)
qed (simp_all only: Imp1k_init_cache SALICON_init_cache)

text \<open>
  C1, at an input: the last entry of the catalog built over the two sample categories.
\<close>

theorem C1_catalog_basenames_witness:
  "py_getitem (Imp1kDataset.image_map_pair_cache
      (Imp1k_init scenario_glob ''r'' (Some [''ads'', ''webpages'']) None None :: nat Imp1kDataset)) (- 1)
     = Inr (''r/imgs/webpages/q.jpg'', ''r/maps/webpages/q.jpg'')
   \<and> basename ''r/imgs/webpages/q.jpg'' = basename ''r/maps/webpages/q.jpg''"
proof -
  have h: "py_getitem (Imp1kDataset.image_map_pair_cache
      (Imp1k_init scenario_glob ''r'' (Some [''ads'', ''webpages'']) None None :: nat Imp1kDataset)) (- 1)
     = Inr (''r/imgs/webpages/q.jpg'', ''r/maps/webpages/q.jpg'')"
    by (simp add: scenario_Imp1k_two py_getitem_def)
  from C1_catalog_basenames [THEN conjunct1, rule_format, OF h] h show ?thesis
    by simp
qed

text \<open>
  C1 as stated fails for the second variant: the first entry of the catalog built over
  the sample directory pairs \<open>1.jpg\<close> with \<open>1.png\<close>.
\<close>

theorem C1_salicon_counterexample:
  "py_getitem (SALICONDataset.image_map_pair_cache
      (SALICON_init scenario_Path_glob ''s'' ''s'' (Some [''train'']) None None :: nat SALICONDataset)) 0
     = Inr (''s/train/images/1.jpg'', ''s/train/maps/1.png'')
   \<and> basename ''s/train/images/1.jpg'' \<noteq> basename ''s/train/maps/1.png''"
  by (simp add: scenario_SALICON_train py_getitem_def basename_def)

text \<open>
  C8 (amended). For every category the first variant pairs the two listings by position
  after sorting each: the category contributes the pairs of the positional zip that have
  the same base filename, the zip has as many pairs as the shorter listing, so the
  category adds at most the minimum of the two counts. In the scenario with images
  \<open>a.jpg\<close>, \<open>b.jpg\<close>, \<open>c.jpg\<close> and maps \<open>a.jpg\<close>, \<open>X.jpg\<close>, \<open>c.jpg\<close> the maps sort as
  \<open>X.jpg\<close>, \<open>a.jpg\<close>, \<open>c.jpg\<close> (an upper-case letter precedes every lower-case one), and
  the catalog is the single pair of \<open>c.jpg\<close> with \<open>c.jpg\<close>.
\<close>

theorem C8_positional_zip:
  "Imp1k_category glob ep cache c =
     cache @ filter same_basename (zip (Imp1k_images_path_list glob ep c) (Imp1k_maps_path_list glob ep c))
   \<and> sorted (Imp1k_images_path_list glob ep c) \<and> sorted (Imp1k_maps_path_list glob ep c)
   \<and> length (zip (Imp1k_images_path_list glob ep c) (Imp1k_maps_path_list glob ep c)) =
       min (length (glob (path_join (ep @ ''/imgs'') [c, ''*.jpg''])))
           (length (glob (path_join (ep @ ''/maps'') [c, ''*.jpg''])))
   \<and> length (Imp1k_category glob ep cache c) \<le>
       length cache + min (length (glob (path_join (ep @ ''/imgs'') [c, ''*.jpg''])))
                          (length (glob (path_join (ep @ ''/maps'') [c, ''*.jpg''])))
   \<and> Imp1kDataset.image_map_pair_cache
        (Imp1k_init scenario_glob ''r'' (Some [''ads'']) None None :: nat Imp1kDataset)
       = [(''r/imgs/ads/c.jpg'', ''r/maps/ads/c.jpg'')]"
proof -
  let ?is = "Imp1k_images_path_list glob ep c" and ?ms = "Imp1k_maps_path_list glob ep c"
  have len: "length (zip ?is ?ms) =
       min (length (glob (path_join (ep @ ''/imgs'') [c, ''*.jpg''])))
           (length (glob (path_join (ep @ ''/maps'') [c, ''*.jpg''])))"
    by (simp add: Imp1k_images_path_list_def Imp1k_maps_path_list_def)
  have "length (filter same_basename (zip ?is ?ms)) \<le> length (zip ?is ?ms)"
    by (rule length_filter_le)
  with len have bound: "length (Imp1k_category glob ep cache c) \<le>
       length cache + min (length (glob (path_join (ep @ ''/imgs'') [c, ''*.jpg''])))
                          (length (glob (path_join (ep @ ''/maps'') [c, ''*.jpg''])))"
    by (simp add: Imp1k_category_eq)
  have srt: "sorted ?is" "sorted ?ms"
    by (simp_all add: Imp1k_images_path_list_def Imp1k_maps_path_list_def)
  show ?thesis
    using len bound srt Imp1k_category_eq [of glob ep cache c] scenario_Imp1k_ads by blast
qed

text \<open>
  C8 as stated fails in its scenario: the catalog is not the two pairs for \<open>a.jpg\<close> and
  \<open>c.jpg\<close>.
\<close>

theorem C8_scenario_counterexample:
  "Imp1kDataset.image_map_pair_cache
      (Imp1k_init scenario_glob ''r'' (Some [''ads'']) None None :: nat Imp1kDataset)
   \<noteq> [(''r/imgs/ads/a.jpg'', ''r/maps/ads/a.jpg''), (''r/imgs/ads/c.jpg'', ''r/maps/ads/c.jpg'')]"
  by (simp add: scenario_Imp1k_ads)

text \<open>A second build on a dataset of the second variant appends the same pairs again.\<close>

lemma SALICON_second_build:
  "SALICONDataset.image_map_pair_cache (SALICON_cache_image_map_paths Path_glob (SALICON_init Path_glob iep mep cats itf mtf)) =
     SALICONDataset.image_map_pair_cache (SALICON_init Path_glob iep mep cats itf mtf)
     @ SALICONDataset.image_map_pair_cache (SALICON_init Path_glob iep mep cats itf mtf)"
  by (simp add: SALICON_init_def SALICON_cache_image_map_paths_def SALICON_categories_loop_eq)

text \<open>
  C2 (amended). The second variant has no flag: invoking the pair-building operation
  again after construction appends the same pairs once more, so the catalog becomes the
  single-build catalog followed by itself. In the first variant an invocation made while
  the flag is set returns at once and leaves the dataset as it was.
\<close>

theorem C2_second_build:
  "SALICONDataset.image_map_pair_cache
      (SALICON_cache_image_map_paths Path_glob (SALICON_init Path_glob iep mep cats itf mtf)) =
     SALICONDataset.image_map_pair_cache (SALICON_init Path_glob iep mep cats itf mtf)
     @ SALICONDataset.image_map_pair_cache (SALICON_init Path_glob iep mep cats itf mtf)
   \<and> (Imp1kDataset.cache_image_map_paths_cashed self \<longrightarrow> Imp1k_cache_image_map_paths glob self = self)"
  by (simp add: SALICON_second_build Imp1k_cache_image_map_paths_def)

text \<open>C2, at an input: a build on the dataset whose flag is set changes nothing.\<close>

theorem C2_second_build_witness:
  "Imp1kDataset.cache_image_map_paths_cashed flagged_Imp1k
   \<and> Imp1k_cache_image_map_paths scenario_glob flagged_Imp1k = flagged_Imp1k"
proof -
  have h: "Imp1kDataset.cache_image_map_paths_cashed flagged_Imp1k"
    by (simp add: flagged_Imp1k_def)
  from C2_second_build [THEN conjunct2, rule_format, OF h, of scenario_glob] h show ?thesis
    by simp
qed

text \<open>
  C2 as stated fails: over the sample directory the second variant's catalog has two
  entries after construction and four after a second build.
\<close>

theorem C2_idempotence_counterexample:
  "SALICON_len (SALICON_init scenario_Path_glob ''s'' ''s'' (Some [''train'']) None None :: nat SALICONDataset) = 2
   \<and> SALICON_len (SALICON_cache_image_map_paths scenario_Path_glob
        (SALICON_init scenario_Path_glob ''s'' ''s'' (Some [''train'']) None None :: nat SALICONDataset)) = 4"
  by (simp add: SALICON_len_def SALICON_second_build scenario_SALICON_train)

text \<open>
  In the first variant the constructor leaves the flag unset, and nothing assigns it
  afterwards, so there too a second build appends the pairs a second time.
\<close>

lemma Imp1k_flag_after_init:
  "\<not> Imp1kDataset.cache_image_map_paths_cashed (Imp1k_init glob ep cats itf mtf)"
  by (simp add: Imp1k_init_def Imp1k_cache_image_map_paths_def)

lemma Imp1k_second_build:
  "Imp1kDataset.image_map_pair_cache (Imp1k_cache_image_map_paths glob (Imp1k_init glob ep cats itf mtf)) =
     Imp1kDataset.image_map_pair_cache (Imp1k_init glob ep cats itf mtf)
     @ Imp1kDataset.image_map_pair_cache (Imp1k_init glob ep cats itf mtf)"
  by (simp add: Imp1k_init_def Imp1k_cache_image_map_paths_def Imp1k_categories_loop_eq)


section \<open>The sample loader\<close>

text \<open>The fields of the two datasets configured with a \<open>map_transform\<close> only.\<close>

lemma map_only_Imp1k_fields:
  "Imp1kDataset.image_map_pair_cache map_only_Imp1k =
     [(''r/imgs/ads/c.jpg'', ''r/maps/ads/c.jpg''), (''r/imgs/webpages/p.jpg'', ''r/maps/webpages/p.jpg''),
      (''r/imgs/webpages/q.jpg'', ''r/maps/webpages/q.jpg'')]"
  "Imp1kDataset.image_transform map_only_Imp1k = None"
  "Imp1kDataset.map_transform map_only_Imp1k = Some double"
  unfolding map_only_Imp1k_def
  by (code_simp, simp_all add: Imp1k_init_def Imp1k_cache_image_map_paths_def)

lemma map_only_SALICON_fields:
  "SALICONDataset.image_map_pair_cache map_only_SALICON =
     [(''s/train/images/1.jpg'', ''s/train/maps/1.png''), (''s/train/images/2.jpg'', ''s/train/maps/2.png'')]"
  "SALICONDataset.image_transform map_only_SALICON = None"
  "SALICONDataset.map_transform map_only_SALICON = Some double"
  unfolding map_only_SALICON_def
  by (code_simp, simp_all add: SALICON_init_def SALICON_cache_image_map_paths_def)

text \<open>
  C4 (amended). For an access whose index is accepted and whose two files decode: in the
  first variant the target goes through \<open>map_transform\<close> whenever one is configured,
  also without an \<open>image_transform\<close>; without a \<open>map_transform\<close> it goes through
  \<open>image_transform\<close> when that is configured, and is returned unchanged when neither is.
  In the second variant both transforms sit under the test for \<open>image_transform\<close>: with
  an \<open>image_transform\<close> the target goes through \<open>map_transform\<close> if configured and
  through \<open>image_transform\<close> otherwise; without an \<open>image_transform\<close> the input and
  the target are returned as converted, whether or not a \<open>map_transform\<close> is configured.
\<close>

theorem C4_target_transform:
  assumes "py_getitem (Imp1kDataset.image_map_pair_cache ds) i = Inr (ip, mp)"
    and "Image_open ip = Some a" and "Image_open mp = Some b"
    and "py_getitem (SALICONDataset.image_map_pair_cache sd) j = Inr (ip', mp')"
    and "Image_open ip' = Some a'" and "Image_open mp' = Some b'"
  shows "(Imp1kDataset.map_transform ds = Some g \<longrightarrow>
            Imp1k_getitem Image_open ds i = Inr (apply_opt (Imp1kDataset.image_transform ds) a, g b))
       \<and> (Imp1kDataset.map_transform ds = None \<and> Imp1kDataset.image_transform ds = Some f \<longrightarrow>
            Imp1k_getitem Image_open ds i = Inr (f a, f b))
       \<and> (Imp1kDataset.map_transform ds = None \<and> Imp1kDataset.image_transform ds = None \<longrightarrow>
            Imp1k_getitem Image_open ds i = Inr (a, b))
       \<and> (SALICONDataset.image_transform sd = Some f' \<and> SALICONDataset.map_transform sd = Some g' \<longrightarrow>
            SALICON_getitem Image_open convert sd j = Inr (f' (convert ''RGB'' a'), g' (convert ''L'' b')))
       \<and> (SALICONDataset.image_transform sd = Some f' \<and> SALICONDataset.map_transform sd = None \<longrightarrow>
            SALICON_getitem Image_open convert sd j = Inr (f' (convert ''RGB'' a'), f' (convert ''L'' b')))
       \<and> (SALICONDataset.image_transform sd = None \<longrightarrow>
            SALICON_getitem Image_open convert sd j = Inr (convert ''RGB'' a', convert ''L'' b'))"
  using assms by (simp add: Imp1k_getitem_def SALICON_getitem_def apply_opt_def)

text \<open>
  C4, at an input: the first sample of each dataset configured with a \<open>map_transform\<close>
  only. The first variant doubles the target, the second returns it as decoded.
\<close>

theorem C4_target_transform_witness:
  "Imp1k_getitem scenario_open map_only_Imp1k 0 = Inr (16, 32)
   \<and> SALICON_getitem scenario_open scenario_convert map_only_SALICON 0 = Inr (20, 18)"
proof -
  have h1: "py_getitem (Imp1kDataset.image_map_pair_cache map_only_Imp1k) 0 = Inr (''r/imgs/ads/c.jpg'', ''r/maps/ads/c.jpg'')"
    by (simp add: map_only_Imp1k_fields py_getitem_def)
  have h2: "scenario_open ''r/imgs/ads/c.jpg'' = Some 16" "scenario_open ''r/maps/ads/c.jpg'' = Some 16"
    by (simp_all add: scenario_open_def)
  have h3: "py_getitem (SALICONDataset.image_map_pair_cache map_only_SALICON) 0 = Inr (''s/train/images/1.jpg'', ''s/train/maps/1.png'')"
    by (simp add: map_only_SALICON_fields py_getitem_def)
  have h4: "scenario_open ''s/train/images/1.jpg'' = Some 20" "scenario_open ''s/train/maps/1.png'' = Some 18"
    by (simp_all add: scenario_open_def)
  from C4_target_transform [OF h1 h2 h3 h4, where g = double and f = double and f' = double
      and g' = double and convert = scenario_convert]
  show ?thesis
    by (simp add: map_only_Imp1k_fields map_only_SALICON_fields apply_opt_def scenario_convert_def double_def)
qed

text \<open>
  C4 as stated fails for the second variant: with \<open>map_transform\<close> configured and no
  \<open>image_transform\<close>, the target comes back as 18, not as its double.
\<close>

theorem C4_salicon_counterexample:
  "SALICONDataset.map_transform map_only_SALICON = Some double
   \<and> SALICON_getitem scenario_open scenario_convert map_only_SALICON 0 = Inr (20, 18)
   \<and> double 18 \<noteq> 18"
  by (simp add: map_only_SALICON_fields SALICON_getitem_def py_getitem_def scenario_open_def
        scenario_convert_def double_def)

text \<open>List access with a negative index, and when it raises.\<close>

lemma py_getitem_negative:
  assumes "- int (length xs) \<le> i" and "i < 0"
  shows "py_getitem xs i = Inr (xs ! nat (int (length xs) + i))"
    and "py_getitem xs (int (length xs) + i) = Inr (xs ! nat (int (length xs) + i))"
  using assms by (simp_all add: py_getitem_def)

lemma py_getitem_IndexError:
  "py_getitem xs i = Inl IndexError \<longleftrightarrow> int (length xs) \<le> i \<or> i < - int (length xs)"
  by (auto simp: py_getitem_def)

lemma Imp1k_getitem_IndexError:
  "Imp1k_getitem Image_open ds i = Inl IndexError \<longleftrightarrow>
     py_getitem (Imp1kDataset.image_map_pair_cache ds) i = Inl IndexError"
  by (auto simp: Imp1k_getitem_def split: sum.splits option.splits prod.splits)

lemma SALICON_getitem_IndexError:
  "SALICON_getitem Image_open convert sd i = Inl IndexError \<longleftrightarrow>
     py_getitem (SALICONDataset.image_map_pair_cache sd) i = Inl IndexError"
  by (auto simp: SALICON_getitem_def Let_def split: sum.splits option.splits prod.splits)

text \<open>
  C9. In both variants, for a catalog of length \<open>n\<close> and an index \<open>i\<close> with
  \<open>-n \<le> i < 0\<close>, the cache access yields the pair at position \<open>n + i\<close>, item access
  returns what it returns for \<open>n + i\<close>, and that is not an out-of-range error; item
  access raises the out-of-range error exactly when \<open>i \<ge> n\<close> or \<open>i < -n\<close>.
\<close>

theorem C9_negative_index:
  "(- int (Imp1k_len ds) \<le> i \<and> i < 0 \<longrightarrow>
      py_getitem (Imp1kDataset.image_map_pair_cache ds) i =
        Inr (Imp1kDataset.image_map_pair_cache ds ! nat (int (Imp1k_len ds) + i))
      \<and> Imp1k_getitem Image_open ds i = Imp1k_getitem Image_open ds (int (Imp1k_len ds) + i)
      \<and> Imp1k_getitem Image_open ds i \<noteq> Inl IndexError)
   \<and> (Imp1k_getitem Image_open ds i = Inl IndexError \<longleftrightarrow> int (Imp1k_len ds) \<le> i \<or> i < - int (Imp1k_len ds))
   \<and> (- int (SALICON_len sd) \<le> j \<and> j < 0 \<longrightarrow>
      py_getitem (SALICONDataset.image_map_pair_cache sd) j =
        Inr (SALICONDataset.image_map_pair_cache sd ! nat (int (SALICON_len sd) + j))
      \<and> SALICON_getitem Image_open convert sd j = SALICON_getitem Image_open convert sd (int (SALICON_len sd) + j)
      \<and> SALICON_getitem Image_open convert sd j \<noteq> Inl IndexError)
   \<and> (SALICON_getitem Image_open convert sd j = Inl IndexError \<longleftrightarrow> int (SALICON_len sd) \<le> j \<or> j < - int (SALICON_len sd))"
proof -
  have a: "Imp1k_getitem Image_open ds i = Inl IndexError \<longleftrightarrow> int (Imp1k_len ds) \<le> i \<or> i < - int (Imp1k_len ds)"
    by (simp add: Imp1k_getitem_IndexError py_getitem_IndexError Imp1k_len_def)
  have b: "SALICON_getitem Image_open convert sd j = Inl IndexError \<longleftrightarrow> int (SALICON_len sd) \<le> j \<or> j < - int (SALICON_len sd)"
    by (simp add: SALICON_getitem_IndexError py_getitem_IndexError SALICON_len_def)
  have c: "- int (Imp1k_len ds) \<le> i \<and> i < 0 \<longrightarrow>
      py_getitem (Imp1kDataset.image_map_pair_cache ds) i =
        Inr (Imp1kDataset.image_map_pair_cache ds ! nat (int (Imp1k_len ds) + i))
      \<and> Imp1k_getitem Image_open ds i = Imp1k_getitem Image_open ds (int (Imp1k_len ds) + i)"
    by (simp add: Imp1k_getitem_def Imp1k_len_def py_getitem_negative)
  have d: "- int (SALICON_len sd) \<le> j \<and> j < 0 \<longrightarrow>
      py_getitem (SALICONDataset.image_map_pair_cache sd) j =
        Inr (SALICONDataset.image_map_pair_cache sd ! nat (int (SALICON_len sd) + j))
      \<and> SALICON_getitem Image_open convert sd j = SALICON_getitem Image_open convert sd (int (SALICON_len sd) + j)"
    by (simp add: SALICON_getitem_def SALICON_len_def py_getitem_negative)
  from a b c d show ?thesis by auto
qed

text \<open>
  C9, at an input: index \<open>-1\<close> of the three-entry catalog of the first variant and
  index \<open>-2\<close> of the two-entry catalog of the second.
\<close>

theorem C9_negative_index_witness:
  "- int (Imp1k_len map_only_Imp1k) \<le> - 1 \<and> (- 1 :: int) < 0
   \<and> Imp1k_getitem scenario_open map_only_Imp1k (- 1) = Imp1k_getitem scenario_open map_only_Imp1k 2
   \<and> Imp1k_getitem scenario_open map_only_Imp1k 2 = Inr (21, 42)
   \<and> - int (SALICON_len map_only_SALICON) \<le> - 2 \<and> (- 2 :: int) < 0
   \<and> SALICON_getitem scenario_open scenario_convert map_only_SALICON (- 2)
       = SALICON_getitem scenario_open scenario_convert map_only_SALICON 0
   \<and> SALICON_getitem scenario_open scenario_convert map_only_SALICON 0 = Inr (20, 18)"
proof -
  have l1: "Imp1k_len map_only_Imp1k = 3" by (simp add: Imp1k_len_def map_only_Imp1k_fields)
  have l2: "SALICON_len map_only_SALICON = 2" by (simp add: SALICON_len_def map_only_SALICON_fields)
  have e1: "Imp1k_getitem scenario_open map_only_Imp1k 2 = Inr (21, 42)"
    by (simp add: Imp1k_getitem_def py_getitem_def map_only_Imp1k_fields scenario_open_def apply_opt_def double_def)
  have e2: "SALICON_getitem scenario_open scenario_convert map_only_SALICON 0 = Inr (20, 18)"
    by (simp add: SALICON_getitem_def py_getitem_def map_only_SALICON_fields scenario_open_def scenario_convert_def)
  from C9_negative_index [of map_only_Imp1k "- 1" scenario_open map_only_SALICON "- 2" scenario_convert] l1 l2 e1 e2
  show ?thesis by simp
qed


section \<open>The epoch runners\<close>

text \<open>
  The running sum of the two loops: each iteration adds the loss of its batch, whatever
  the sum was, and the evaluation loop hands the state on untouched.
\<close>

lemma train_batch_step:
  "train_batch C (e, L) b = (e + batch_loss C L b, snd (train_batch C (0, L) b))"
  by (cases b) (simp add: train_batch_def batch_loss_def forward_def zero_grad_def Let_def)

lemma train_loop_acc:
  "\<exists>L'. train_loop C (e, L) bs = (e + sum_list (train_losses C L bs), L')"
proof (induction bs arbitrary: e L)
  case Nil
  then show ?case by simp
next
  case (Cons b bs)
  let ?L = "snd (train_batch C (0, L) b)"
  from Cons.IH [of "e + batch_loss C L b" ?L]
  obtain L' where "train_loop C (e + batch_loss C L b, ?L) bs =
      (e + batch_loss C L b + sum_list (train_losses C ?L bs), L')"
    by blast
  then have "train_loop C (e, L) (b # bs) = (e + sum_list (train_losses C L (b # bs)), L')"
    using train_batch_step [of C e L b] by (simp add: add.assoc)
  then show ?case by blast
qed

lemma eval_loop_acc:
  "eval_loop C (e, L) bs = (e + sum_list (map (batch_loss C L) bs), L)"
proof (induction bs arbitrary: e)
  case Nil
  then show ?case by simp
next
  case (Cons b bs)
  have "eval_batch C (e, L) b = (e + batch_loss C L b, L)"
    by (cases b) (simp add: eval_batch_def batch_loss_def Let_def)
  then show ?case
    by (simp add: Cons.IH add.assoc)
qed

text \<open>
  C7. Over a non-empty sequence of \<open>N\<close> batches, each of \<open>train\<close>, \<open>validation\<close> and
  \<open>test\<close> returns the sum of the per-batch losses divided by \<open>N\<close>. For \<open>train\<close> the
  loss of a batch is taken in the state the earlier batches have left; for the other two
  every batch is scored in the one state in evaluation mode. Floats are read as reals.
\<close>

theorem C7_mean_loss:
  assumes "dataloader \<noteq> []"
  shows "(\<exists>L'. train C L dataloader =
            Inr (sum_list (train_losses C (L\<lparr>training := True\<rparr>) dataloader) / real (length dataloader), L'))
       \<and> (\<exists>L'. validation C L dataloader =
            Inr (sum_list (map (batch_loss C (L\<lparr>training := False\<rparr>)) dataloader) / real (length dataloader), L'))
       \<and> (\<exists>L'. test C L dataloader =
            Inr (sum_list (map (batch_loss C (L\<lparr>training := False\<rparr>)) dataloader) / real (length dataloader), L'))"
proof (intro conjI)
  show "\<exists>L'. train C L dataloader =
            Inr (sum_list (train_losses C (L\<lparr>training := True\<rparr>) dataloader) / real (length dataloader), L')"
  proof -
    obtain L' where "train_loop C (0, L\<lparr>training := True\<rparr>) dataloader =
        (0 + sum_list (train_losses C (L\<lparr>training := True\<rparr>) dataloader), L')"
      using train_loop_acc by blast
    with assms show ?thesis by (simp add: train_def)
  qed
  show "\<exists>L'. validation C L dataloader =
            Inr (sum_list (map (batch_loss C (L\<lparr>training := False\<rparr>)) dataloader) / real (length dataloader), L')"
    using assms by (simp add: validation_def eval_loop_acc)
  show "\<exists>L'. test C L dataloader =
            Inr (sum_list (map (batch_loss C (L\<lparr>training := False\<rparr>)) dataloader) / real (length dataloader), L')"
    using assms by (simp add: test_def eval_loop_acc)
qed

text \<open>The losses of the two sample batches on the small network.\<close>

lemma toy_train_losses:
  "train_losses toy (toy_learner\<lparr>training := True\<rparr>) toy_batches = [1, 4]"
  by (simp add: toy_batches_def toy_learner_def toy_def batch_loss_def forward_def train_batch_def
      zero_grad_def backward_def optimizer_step_def toy_forward_def toy_criterion_def
      toy_backward_def toy_step_def Let_def)

lemma toy_eval_losses:
  "map (batch_loss toy (toy_learner\<lparr>training := False\<rparr>)) toy_batches = [1, 0]"
  by (simp add: toy_batches_def toy_learner_def toy_def batch_loss_def forward_def
      toy_forward_def toy_criterion_def)

text \<open>
  C7, at an input: the two sample batches give the training losses 1 and 4, mean 5/2,
  and the evaluation losses 1 and 0, mean 1/2.
\<close>

theorem C7_mean_loss_witness:
  "toy_batches \<noteq> []
   \<and> (\<exists>L'. train toy toy_learner toy_batches = Inr (5 / 2, L'))
   \<and> (\<exists>L'. validation toy toy_learner toy_batches = Inr (1 / 2, L'))
   \<and> (\<exists>L'. test toy toy_learner toy_batches = Inr (1 / 2, L'))"
proof -
  have h: "toy_batches \<noteq> []" by (simp add: toy_batches_def)
  have n: "length toy_batches = 2" by (simp add: toy_batches_def)
  from C7_mean_loss [OF h, of toy toy_learner] h show ?thesis
    by (simp add: toy_train_losses toy_eval_losses n)
qed

text \<open>
  C5 (amended). Over an empty batch sequence each of \<open>train\<close>, \<open>validation\<close> and \<open>test\<close>
  fails with the \<open>ZeroDivisionError\<close> of the final division; none returns a number,
  so neither a NaN nor a zero mean loss comes back.
\<close>

theorem C5_empty_epoch:
  "train C L [] = Inl ZeroDivisionError
   \<and> validation C L [] = Inl ZeroDivisionError
   \<and> test C L [] = Inl ZeroDivisionError"
  by (simp add: train_def validation_def test_def)

text \<open>
  C5 as stated fails: on the small network with no batches the three runners end in
  \<open>ZeroDivisionError\<close>, which is not an error of the name \<open>ZeroBatches\<close>.
\<close>

theorem C5_zero_batches_counterexample:
  "train toy toy_learner [] = Inl ZeroDivisionError
   \<and> validation toy toy_learner [] = Inl ZeroDivisionError
   \<and> test toy toy_learner [] = Inl ZeroDivisionError
   \<and> ZeroDivisionError \<noteq> ZeroBatches"
  by (simp add: train_def validation_def test_def)


section \<open>The Lightning module: steps, hooks and snapshots\<close>

text \<open>
  What each method leaves alone. The step methods touch the metrics and the log (and
  \<open>training_step\<close> the network); \<open>save_image\<close> and the hooks touch the loggers and the
  list of figures only.
\<close>

lemma forward_zero_grad: "forward C (zero_grad L) x = forward C L x"
  by (simp add: forward_def zero_grad_def)

lemma accumulate_frame:
  "net (accumulate C sp p g l M) = net M"
  "figures (accumulate C sp p g l M) = figures M"
  "loggers (accumulate C sp p g l M) = loggers M"
  "num_training_batches (accumulate C sp p g l M) = num_training_batches M"
  "num_test_batches (accumulate C sp p g l M) = num_test_batches M"
  "current_epoch (accumulate C sp p g l M) = current_epoch M"
  by (simp_all add: accumulate_def metric_update_def self_log_def Let_def)

lemma training_step_frame:
  "net (snd (training_step C M b i)) = optimizer_step C (backward C (zero_grad (net M)) (fst b) (snd b))"
  "figures (snd (training_step C M b i)) = figures M"
  "num_training_batches (snd (training_step C M b i)) = num_training_batches M"
  "current_epoch (snd (training_step C M b i)) = current_epoch M"
  "fst (training_step C M b i) = criterion_fn C (forward C (net M) (fst b)) (snd b)"
  by (cases b; simp add: training_step_def Let_def accumulate_frame forward_zero_grad)+

lemma validation_step_frame:
  "net (snd (validation_step C M b i)) = net M"
  "figures (snd (validation_step C M b i)) = figures M"
  "current_epoch (snd (validation_step C M b i)) = current_epoch M"
  by (cases b; simp add: validation_step_def Let_def accumulate_frame)+

lemma test_step_frame:
  "net (test_step C M b i) = net M"
  "figures (test_step C M b i) = figures M"
  "num_test_batches (test_step C M b i) = num_test_batches M"
  "current_epoch (test_step C M b i) = current_epoch M"
  by (cases b; simp add: test_step_def Let_def accumulate_frame)+

lemma save_image_frame:
  "net (save_image C M st e x y p) = net M"
  "figures (save_image C M st e x y p) = figures M @ [draw_figure C st e x y p]"
  "num_training_batches (save_image C M st e x y p) = num_training_batches M"
  "num_test_batches (save_image C M st e x y p) = num_test_batches M"
  "current_epoch (save_image C M st e x y p) = current_epoch M"
  by (simp_all add: save_image_def Let_def)

lemma on_train_batch_end_frame:
  "net (on_train_batch_end C M b i) = net M"
  "num_training_batches (on_train_batch_end C M b i) = num_training_batches M"
  "current_epoch (on_train_batch_end C M b i) = current_epoch M"
  "figures (on_train_batch_end C M b i) =
     (if i = num_training_batches M - 1
      then figures M @ [draw_figure C ''training'' (current_epoch M) (fst b) (snd b) (forward C (net M) (fst b))]
      else figures M)"
  by (cases b; simp add: on_train_batch_end_def save_image_frame)+

lemma on_train_batch_end_fires:
  "i = num_training_batches M - 1 \<Longrightarrow>
     figures (on_train_batch_end C M b i) =
       figures M @ [draw_figure C ''training'' (current_epoch M) (fst b) (snd b) (forward C (net M) (fst b))]"
  by (simp add: on_train_batch_end_frame)

lemma on_validation_batch_end_frame:
  "net (on_validation_batch_end C M b i) = net M"
  "current_epoch (on_validation_batch_end C M b i) = current_epoch M"
  "figures (on_validation_batch_end C M b i) =
     (if i = 0
      then figures M @ [draw_figure C ''validation'' (current_epoch M) (fst b) (snd b) (forward C (net M) (fst b))]
      else figures M)"
  by (cases b; simp add: on_validation_batch_end_def save_image_frame)+

lemma on_test_batch_end_eq:
  "num_test_batches M = n # ns \<Longrightarrow>
     on_test_batch_end C M b i =
       Inr (if i = n - 1
            then save_image C M ''test'' (current_epoch M) (fst b) (snd b) (forward C (net M) (fst b))
            else M)"
  by (cases b) (simp add: on_test_batch_end_def py_getitem_def)


text \<open>
  A pass over the batches. Before the index the hook waits for, no figure is drawn; the
  batch at that index draws one.
\<close>

lemma training_batches_trainer:
  "num_training_batches (training_batches C M i bs) = num_training_batches M
   \<and> current_epoch (training_batches C M i bs) = current_epoch M"
  by (induction bs arbitrary: M i) (simp_all add: training_step_frame on_train_batch_end_frame)

lemma training_batches_quiet:
  "i + int (length bs) < num_training_batches M \<Longrightarrow> figures (training_batches C M i bs) = figures M"
proof (induction bs arbitrary: M i)
  case Nil
  then show ?case by simp
next
  case (Cons b bs)
  let ?M = "on_train_batch_end C (snd (training_step C M b i)) b i"
  from Cons.prems have ne: "i \<noteq> num_training_batches M - 1" by simp
  have n: "num_training_batches ?M = num_training_batches M"
    by (simp add: training_step_frame on_train_batch_end_frame)
  from ne have f: "figures ?M = figures M"
    by (simp add: training_step_frame on_train_batch_end_frame)
  from Cons.prems n have "i + 1 + int (length bs) < num_training_batches ?M" by simp
  then have "figures (training_batches C ?M (i + 1) bs) = figures ?M" by (rule Cons.IH)
  with f show ?case by simp
qed

lemma training_batches_snoc:
  "training_batches C M i (bs @ [b]) =
     on_train_batch_end C
       (snd (training_step C (training_batches C M i bs) b (i + int (length bs))))
       b (i + int (length bs))"
  by (induction bs arbitrary: M i) (simp_all add: add.assoc)

lemma training_epoch_figures:
  assumes "bs \<noteq> []" and "num_training_batches M = int (length bs)"
  shows "figures (training_batches C M 0 bs) =
           figures M @ [draw_figure C ''training'' (current_epoch M) (fst (last bs)) (snd (last bs))
                          (forward C (net (training_batches C M 0 bs)) (fst (last bs)))]"
proof -
  from assms(1) obtain bs' b where bs: "bs = bs' @ [b]"
    by (metis append_butlast_last_id)
  let ?M' = "training_batches C M 0 bs'"
  let ?j = "0 + int (length bs')"
  let ?S = "snd (training_step C ?M' b ?j)"
  have last: "training_batches C M 0 bs = on_train_batch_end C ?S b ?j"
    unfolding bs by (rule training_batches_snoc)
  from assms(2) bs have "0 + int (length bs') < num_training_batches M" by simp
  then have quiet: "figures ?M' = figures M" by (rule training_batches_quiet)
  have tr: "num_training_batches ?S = int (length bs)" "current_epoch ?S = current_epoch M"
    using assms(2) training_batches_trainer [of C M 0 bs'] by (simp_all add: training_step_frame)
  have fire: "?j = num_training_batches ?S - 1"
    using tr bs by simp
  have netS: "net (training_batches C M 0 bs) = net ?S"
    unfolding last by (simp only: on_train_batch_end_frame)
  have figS: "figures ?S = figures M"
    using quiet by (simp add: training_step_frame)
  have lb: "last bs = b" by (simp add: bs)
  have "figures (training_batches C M 0 bs) = figures (on_train_batch_end C ?S b ?j)"
    by (simp only: last)
  also have "\<dots> = figures ?S @ [draw_figure C ''training'' (current_epoch ?S) (fst b) (snd b) (forward C (net ?S) (fst b))]"
    using fire by (rule on_train_batch_end_fires)
  also have "\<dots> = figures M @ [draw_figure C ''training'' (current_epoch M) (fst b) (snd b)
                          (forward C (net (training_batches C M 0 bs)) (fst b))]"
    by (simp only: figS tr(2) netS)
  finally show ?thesis
    by (simp only: lb)
qed

lemma validation_batches_net:
  "net (validation_batches C M i bs) = net M \<and> current_epoch (validation_batches C M i bs) = current_epoch M"
  by (induction bs arbitrary: M i) (simp_all add: validation_step_frame on_validation_batch_end_frame)

lemma validation_batches_quiet:
  "0 < i \<Longrightarrow> figures (validation_batches C M i bs) = figures M"
  by (induction bs arbitrary: M i) (simp_all add: validation_step_frame on_validation_batch_end_frame)

lemma validation_epoch_figures:
  assumes "bs \<noteq> []"
  shows "figures (validation_batches C M 0 bs) =
           figures M @ [draw_figure C ''validation'' (current_epoch M) (fst (hd bs)) (snd (hd bs))
                          (forward C (net M) (fst (hd bs)))]"
proof -
  from assms obtain b rest where bs: "bs = b # rest" by (cases bs) auto
  let ?M = "on_validation_batch_end C (snd (validation_step C M b 0)) b 0"
  have "figures (validation_batches C M 0 bs) = figures (validation_batches C ?M (0 + 1) rest)"
    by (simp add: bs)
  also have "\<dots> = figures ?M"
    by (rule validation_batches_quiet) simp
  also have "\<dots> = figures M @ [draw_figure C ''validation'' (current_epoch M) (fst b) (snd b) (forward C (net M) (fst b))]"
    by (simp add: on_validation_batch_end_frame validation_step_frame)
  finally show ?thesis by (simp add: bs)
qed

lemma on_test_batch_end_frame:
  assumes "num_test_batches M = n # ns"
  shows "\<exists>M'. on_test_batch_end C (test_step C M b i) b i = Inr M'
            \<and> net M' = net M \<and> num_test_batches M' = n # ns \<and> current_epoch M' = current_epoch M
            \<and> figures M' = (if i = n - 1
                 then figures M @ [draw_figure C ''test'' (current_epoch M) (fst b) (snd b) (forward C (net M) (fst b))]
                 else figures M)"
proof -
  have "num_test_batches (test_step C M b i) = n # ns"
    using assms by (simp add: test_step_frame)
  then show ?thesis
    using assms by (simp add: on_test_batch_end_eq test_step_frame save_image_frame)
qed

lemma test_batches_quiet:
  "num_test_batches M = n # ns \<Longrightarrow> i + int (length bs) < n \<Longrightarrow>
     \<exists>M'. test_batches C M i bs = Inr M' \<and> figures M' = figures M \<and> net M' = net M
          \<and> num_test_batches M' = n # ns \<and> current_epoch M' = current_epoch M"
proof (induction bs arbitrary: M i)
  case Nil
  then show ?case by simp
next
  case (Cons b bs)
  from Cons.prems have ne: "i \<noteq> n - 1" by simp
  from on_test_batch_end_frame [OF Cons.prems(1), of C b i] ne
  obtain M1 where M1: "on_test_batch_end C (test_step C M b i) b i = Inr M1"
      "net M1 = net M" "num_test_batches M1 = n # ns" "current_epoch M1 = current_epoch M"
      "figures M1 = figures M"
    by auto
  from Cons.prems have "i + 1 + int (length bs) < n" by simp
  from Cons.IH [OF M1(3) this]
  obtain M' where "test_batches C M1 (i + 1) bs = Inr M'" "figures M' = figures M1" "net M' = net M1"
      "num_test_batches M' = n # ns" "current_epoch M' = current_epoch M1"
    by blast
  with M1 show ?case by simp
qed

lemma test_batches_snoc:
  "test_batches C M i (bs @ [b]) =
     (case test_batches C M i bs of
        Inl e \<Rightarrow> Inl e
      | Inr M' \<Rightarrow> on_test_batch_end C (test_step C M' b (i + int (length bs))) b (i + int (length bs)))"
  by (induction bs arbitrary: M i) (simp_all add: add.assoc split: sum.splits)

lemma test_epoch_figures:
  assumes "bs \<noteq> []" and "num_test_batches M = int (length bs) # ns"
  shows "\<exists>M'. test_batches C M 0 bs = Inr M' \<and> net M' = net M
            \<and> figures M' = figures M @ [draw_figure C ''test'' (current_epoch M) (fst (last bs)) (snd (last bs))
                          (forward C (net M) (fst (last bs)))]"
proof -
  from assms(1) obtain bs' b where bs: "bs = bs' @ [b]"
    by (metis append_butlast_last_id)
  have "0 + int (length bs') < int (length bs)" by (simp add: bs)
  from test_batches_quiet [OF assms(2) this, of C]
  obtain M1 where M1: "test_batches C M 0 bs' = Inr M1" "figures M1 = figures M" "net M1 = net M"
      "num_test_batches M1 = int (length bs) # ns" "current_epoch M1 = current_epoch M"
    by blast
  have fire: "0 + int (length bs') = int (length bs) - 1" by (simp add: bs)
  from on_test_batch_end_frame [OF M1(4), of C b "0 + int (length bs')"] fire
  obtain M' where "on_test_batch_end C (test_step C M1 b (0 + int (length bs'))) b (0 + int (length bs')) = Inr M'"
      "net M' = net M1"
      "figures M' = figures M1 @ [draw_figure C ''test'' (current_epoch M1) (fst b) (snd b) (forward C (net M1) (fst b))]"
    by auto
  with M1 show ?thesis
    by (simp add: bs test_batches_snoc)
qed


text \<open>The small network, evaluated.\<close>

lemma str_int_0: "str_int 0 = ''0''"
  by (simp add: str_int_def str_nat.simps)

lemma on_test_batch_end_fires:
  assumes "num_test_batches M = n # ns"
  shows "\<exists>M'. on_test_batch_end C M b i = Inr M' \<and> (figures M' \<noteq> figures M \<longleftrightarrow> i = n - 1)"
  using assms by (simp add: on_test_batch_end_eq save_image_frame)

text \<open>
  C3 (amended). In a pass over a non-empty sequence of \<open>n\<close> batches, numbered from 0:
  a training epoch with \<open>num_training_batches = n\<close> draws exactly one figure, for the
  last batch (index \<open>n - 1\<close>); a validation pass draws exactly one, for the first batch
  (index 0); a test pass with \<open>num_test_batches[0] = n\<close> draws exactly one, for the last
  batch (index \<open>n - 1\<close>), not for the first. At the level of the hooks: the training
  hook draws exactly when the index is \<open>num_training_batches - 1\<close>, the validation hook
  exactly when it is 0, the test hook exactly when it is \<open>num_test_batches[0] - 1\<close>.
\<close>

theorem C3_snapshot_trigger:
  assumes "batches \<noteq> []"
  shows "(num_training_batches M = int (length batches) \<longrightarrow>
            figures (training_batches C M 0 batches) =
              figures M @ [draw_figure C ''training'' (current_epoch M) (fst (last batches)) (snd (last batches))
                             (forward C (net (training_batches C M 0 batches)) (fst (last batches)))])
       \<and> figures (validation_batches C M 0 batches) =
              figures M @ [draw_figure C ''validation'' (current_epoch M) (fst (hd batches)) (snd (hd batches))
                             (forward C (net M) (fst (hd batches)))]
       \<and> (num_test_batches M = int (length batches) # ns \<longrightarrow>
            (\<exists>M'. test_batches C M 0 batches = Inr M'
               \<and> figures M' =
                   figures M @ [draw_figure C ''test'' (current_epoch M) (fst (last batches)) (snd (last batches))
                                  (forward C (net M) (fst (last batches)))]))
       \<and> (figures (on_train_batch_end C M b i) \<noteq> figures M \<longleftrightarrow> i = num_training_batches M - 1)
       \<and> (figures (on_validation_batch_end C M b i) \<noteq> figures M \<longleftrightarrow> i = 0)
       \<and> (num_test_batches M = n # ns' \<longrightarrow>
            (\<exists>M'. on_test_batch_end C M b i = Inr M' \<and> (figures M' \<noteq> figures M \<longleftrightarrow> i = n - 1)))"
proof (intro conjI impI)
  assume "num_training_batches M = int (length batches)"
  with assms show "figures (training_batches C M 0 batches) =
              figures M @ [draw_figure C ''training'' (current_epoch M) (fst (last batches)) (snd (last batches))
                             (forward C (net (training_batches C M 0 batches)) (fst (last batches)))]"
    by (rule training_epoch_figures)
next
  from assms show "figures (validation_batches C M 0 batches) =
              figures M @ [draw_figure C ''validation'' (current_epoch M) (fst (hd batches)) (snd (hd batches))
                             (forward C (net M) (fst (hd batches)))]"
    by (rule validation_epoch_figures)
next
  assume "num_test_batches M = int (length batches) # ns"
  from test_epoch_figures [OF assms this, of C]
  show "\<exists>M'. test_batches C M 0 batches = Inr M'
               \<and> figures M' =
                   figures M @ [draw_figure C ''test'' (current_epoch M) (fst (last batches)) (snd (last batches))
                                  (forward C (net M) (fst (last batches)))]"
    by blast
next
  show "figures (on_train_batch_end C M b i) \<noteq> figures M \<longleftrightarrow> i = num_training_batches M - 1"
    by (simp add: on_train_batch_end_frame)
next
  show "figures (on_validation_batch_end C M b i) \<noteq> figures M \<longleftrightarrow> i = 0"
    by (simp add: on_validation_batch_end_frame)
next
  assume "num_test_batches M = n # ns'"
  then show "\<exists>M'. on_test_batch_end C M b i = Inr M' \<and> (figures M' \<noteq> figures M \<longleftrightarrow> i = n - 1)"
    by (rule on_test_batch_end_fires)
qed

text \<open>The sample module and the network after the two sample training batches.\<close>

lemma toy_model_fields:
  "net toy_model = toy_learner" "figures toy_model = []" "current_epoch toy_model = 0"
  "num_training_batches toy_model = 2" "num_test_batches toy_model = [2]"
  by (simp_all add: toy_model_def)

lemma toy_criterion_eq: "criterion_fn toy y g = (y - g) * (y - g)"
  by (simp add: toy_def toy_criterion_def)

lemma toy_forward_eq: "forward toy L x = params L * x"
  by (simp add: forward_def toy_def toy_forward_def)

lemma toy_update_eq:
  "optimizer_step toy (backward toy (zero_grad L) x y) =
     L\<lparr>grads := Some (2 * (params L * x - y) * x),
       params := params L - (2 * (params L * x - y) * x) / 2,
       opt_state := Suc (opt_state L)\<rparr>"
  by (simp add: zero_grad_def backward_def optimizer_step_def toy_def toy_backward_def toy_step_def Let_def)

lemma toy_draw_figure:
  "draw_figure toy stage 0 x y p =
     \<lparr>suptitle = stage @ '' epoch: 0'', input_panel = x, ground_truth_panel = y, predict_panel = p\<rparr>"
  by (simp add: draw_figure_def str_int_0 toy_def toy_same_def)

lemma toy_training_net:
  "net (training_batches toy toy_model 0 toy_batches) = toy_trained\<lparr>training := False\<rparr>"
  by (simp add: toy_batches_def training_step_frame on_train_batch_end_frame toy_model_fields
      toy_learner_def toy_trained_def toy_def zero_grad_def backward_def optimizer_step_def
      toy_backward_def toy_step_def Let_def)

text \<open>
  C3, at an input: over the two sample batches the training figure shows the second
  batch, the validation figure the first, the test figure the second.
\<close>

theorem C3_snapshot_trigger_witness:
  "toy_batches \<noteq> []
   \<and> num_training_batches toy_model = int (length toy_batches)
   \<and> num_test_batches toy_model = [int (length toy_batches)]
   \<and> figures (training_batches toy toy_model 0 toy_batches) =
       [\<lparr>suptitle = ''training epoch: 0'', input_panel = 2, ground_truth_panel = 2, predict_panel = - 4\<rparr>]
   \<and> figures (validation_batches toy toy_model 0 toy_batches) =
       [\<lparr>suptitle = ''validation epoch: 0'', input_panel = 1, ground_truth_panel = 2, predict_panel = 1\<rparr>]
   \<and> (\<exists>M'. test_batches toy toy_model 0 toy_batches = Inr M'
         \<and> figures M' =
             [\<lparr>suptitle = ''test epoch: 0'', input_panel = 2, ground_truth_panel = 2, predict_panel = 2\<rparr>])"
proof -
  have h: "toy_batches \<noteq> []" by (simp add: toy_batches_def)
  have n: "num_training_batches toy_model = int (length toy_batches)"
    by (simp add: toy_model_fields toy_batches_def)
  have t: "num_test_batches toy_model = int (length toy_batches) # []"
    by (simp add: toy_model_fields toy_batches_def)
  have e: "hd toy_batches = (1, 2)" "last toy_batches = (2, 2)"
    by (simp_all add: toy_batches_def)
  from C3_snapshot_trigger [OF h, of toy_model toy "[]"] n t
  show ?thesis
    by (simp add: h e toy_training_net toy_model_fields toy_draw_figure toy_forward_eq
        toy_trained_def toy_learner_def)
qed

text \<open>
  C3 as stated fails for the test pass: with two test batches the hook leaves the module
  as it is at index 0 and changes it at index 1.
\<close>

theorem C3_test_trigger_counterexample:
  "num_test_batches toy_model = [2]
   \<and> on_test_batch_end toy toy_model (1, 2) 0 = Inr toy_model
   \<and> on_test_batch_end toy toy_model (2, 2) 1 \<noteq> Inr toy_model"
proof -
  have "figures (save_image toy toy_model ''test'' 0 2 2 (forward toy toy_learner 2)) \<noteq> figures toy_model"
    by (simp add: save_image_frame)
  then have "save_image toy toy_model ''test'' 0 2 2 (forward toy toy_learner 2) \<noteq> toy_model"
    by auto
  then show ?thesis
    by (simp add: on_test_batch_end_def py_getitem_def toy_model_fields)
qed


text \<open>\<open>validation\<close> and \<open>test\<close> in closed form: the state they return is the one given, in evaluation mode.\<close>

lemma validation_eq:
  "validation C L dl =
     (if dl = [] then Inl ZeroDivisionError
      else Inr (sum_list (map (batch_loss C (L\<lparr>training := False\<rparr>)) dl) / real (length dl),
                L\<lparr>training := False\<rparr>))"
  by (simp add: validation_def eval_loop_acc)

lemma test_eq:
  "test C L dl =
     (if dl = [] then Inl ZeroDivisionError
      else Inr (sum_list (map (batch_loss C (L\<lparr>training := False\<rparr>)) dl) / real (length dl),
                L\<lparr>training := False\<rparr>))"
  by (simp add: test_def eval_loop_acc)

lemma on_test_batch_end_net:
  "on_test_batch_end C M b i = Inr M' \<Longrightarrow> net M' = net M"
  by (cases b) (auto simp: on_test_batch_end_def save_image_frame split: sum.splits if_splits)

text \<open>
  C6. A run of \<open>validation\<close> or \<open>test\<close> that returns leaves the parameters, the stored
  gradient and the optimizer state as they were, for any collaborators whatever: no
  gradient is computed and no optimizer step taken. Running it again on the state it
  returned gives the same mean loss and the same state. In the Lightning module the
  validation and test steps and their batch-end hooks leave the network and its optimizer
  untouched as well.
\<close>

theorem C6_evaluation_frame:
  "(validation C L dl = Inr (m, L') \<longrightarrow>
      params L' = params L \<and> grads L' = grads L \<and> opt_state L' = opt_state L
      \<and> validation C L' dl = Inr (m, L'))
   \<and> (test C L dl = Inr (m, L') \<longrightarrow>
      params L' = params L \<and> grads L' = grads L \<and> opt_state L' = opt_state L
      \<and> test C L' dl = Inr (m, L'))
   \<and> net (snd (validation_step C M batch i)) = net M
   \<and> net (on_validation_batch_end C M batch i) = net M
   \<and> net (validation_batches C M i batches) = net M
   \<and> net (test_step C M batch i) = net M
   \<and> (on_test_batch_end C M batch i = Inr M' \<longrightarrow> net M' = net M)"
proof (intro conjI impI)
  assume "validation C L dl = Inr (m, L')"
  then have "dl \<noteq> []" "L' = L\<lparr>training := False\<rparr>"
      "m = sum_list (map (batch_loss C (L\<lparr>training := False\<rparr>)) dl) / real (length dl)"
    by (auto simp: validation_eq split: if_splits)
  then show "params L' = params L" "grads L' = grads L" "opt_state L' = opt_state L"
      "validation C L' dl = Inr (m, L')"
    by (simp_all add: validation_eq)
next
  assume "test C L dl = Inr (m, L')"
  then have "dl \<noteq> []" "L' = L\<lparr>training := False\<rparr>"
      "m = sum_list (map (batch_loss C (L\<lparr>training := False\<rparr>)) dl) / real (length dl)"
    by (auto simp: test_eq split: if_splits)
  then show "params L' = params L" "grads L' = grads L" "opt_state L' = opt_state L"
      "test C L' dl = Inr (m, L')"
    by (simp_all add: test_eq)
next
  assume "on_test_batch_end C M batch i = Inr M'"
  then show "net M' = net M" by (rule on_test_batch_end_net)
qed (simp_all add: validation_step_frame on_validation_batch_end_frame validation_batches_net test_step_frame)

text \<open>Validation and test of the trained small network over the two sample batches.\<close>

lemma toy_trained_validation:
  "validation toy toy_trained toy_batches = Inr (26, toy_trained\<lparr>training := False\<rparr>)"
  "test toy toy_trained toy_batches = Inr (26, toy_trained\<lparr>training := False\<rparr>)"
  by (simp_all add: validation_eq test_eq toy_batches_def batch_loss_def toy_forward_eq toy_trained_def
      toy_criterion_eq)

text \<open>
  C6, at an input: the trained small network, left in training mode, validates to a mean
  loss of 26 twice in a row; the test hook at index 0 returns the module unchanged.
\<close>

theorem C6_evaluation_frame_witness:
  "validation toy toy_trained toy_batches = Inr (26, toy_trained\<lparr>training := False\<rparr>)
   \<and> validation toy (toy_trained\<lparr>training := False\<rparr>) toy_batches = Inr (26, toy_trained\<lparr>training := False\<rparr>)
   \<and> test toy toy_trained toy_batches = Inr (26, toy_trained\<lparr>training := False\<rparr>)
   \<and> test toy (toy_trained\<lparr>training := False\<rparr>) toy_batches = Inr (26, toy_trained\<lparr>training := False\<rparr>)
   \<and> params (toy_trained\<lparr>training := False\<rparr>) = params toy_trained
   \<and> on_test_batch_end toy toy_model (1, 2) 0 = Inr toy_model"
proof -
  have t: "on_test_batch_end toy toy_model (1, 2) 0 = Inr toy_model"
    by (simp add: on_test_batch_end_def py_getitem_def toy_model_fields)
  from C6_evaluation_frame [of toy toy_trained toy_batches 26 "toy_trained\<lparr>training := False\<rparr>"
      toy_model "(1, 2)" 0 "[]" toy_model]
    toy_trained_validation t
  show ?thesis by simp
qed

text \<open>The metric updates of a training step use the prediction made before the update.\<close>

lemma accumulate_metrics:
  "metrics (accumulate C ''train'' p g l M) =
     (metrics M)(''train_kl_div'' := metrics M ''train_kl_div'' @ [convert_kl_div C p g],
                 ''train_sim'' := metrics M ''train_sim'' @ [convert_sim C p g],
                 ''train_scc'' := metrics M ''train_scc'' @ [convert_scc C p g],
                 ''train_auroc'' := metrics M ''train_auroc'' @ [convert_auroc C p g])"
  by (simp add: accumulate_def metric_update_def self_log_def Let_def)

lemma training_step_metrics:
  "metrics (snd (training_step C M (x, y) i)) ''train_kl_div'' = metrics M ''train_kl_div'' @ [convert_kl_div C (forward C (net M) x) y]"
  "metrics (snd (training_step C M (x, y) i)) ''train_sim'' = metrics M ''train_sim'' @ [convert_sim C (forward C (net M) x) y]"
  "metrics (snd (training_step C M (x, y) i)) ''train_scc'' = metrics M ''train_scc'' @ [convert_scc C (forward C (net M) x) y]"
  "metrics (snd (training_step C M (x, y) i)) ''train_auroc'' = metrics M ''train_auroc'' @ [convert_auroc C (forward C (net M) x) y]"
  by (simp_all add: training_step_def Let_def accumulate_metrics forward_zero_grad)

lemma toy_panel_eq: "first_sample toy (normalized toy x) = x"
  by (simp add: toy_def toy_same_def)

lemma training_step_loggers:
  "loggers (snd (training_step C M b i)) = loggers M"
  by (cases b) (simp add: training_step_def Let_def accumulate_frame)

lemma on_train_batch_end_loggers:
  "i = num_training_batches M - 1 \<Longrightarrow>
     loggers (on_train_batch_end C M (x, y) i) =
       map (add_image (''training_images_epoch_'' @ str_int (current_epoch M))
              (draw_figure C ''training'' (current_epoch M) x y (forward C (net M) x))
              (current_epoch M))
           (loggers M)"
  by (simp add: on_train_batch_end_def save_image_def Let_def)

text \<open>
  C10. On the final batch of a training epoch, the hook that follows the training step
  draws one figure whose prediction panel is the first sample of the normalised forward
  pass made with the parameters the optimizer step of that batch has produced; its other
  two panels are the first samples of the normalised input and target. That figure is
  what every TensorBoard logger receives. The loss the step returns and the four metric
  updates use the forward pass made before the update. The panel can differ from the
  prediction behind the loss: on the trained small network, for the batch \<open>(2, 5)\<close>, it
  does.
\<close>

theorem C10_snapshot_after_update:
  "(i = num_training_batches M - 1 \<longrightarrow>
      figures (on_train_batch_end C (snd (training_step C M (x, y) i)) (x, y) i) =
        figures M @
          [\<lparr>suptitle = ''training epoch: '' @ str_int (current_epoch M),
            input_panel = first_sample C (normalized C x),
            ground_truth_panel = first_sample C (normalized C y),
            predict_panel =
              first_sample C (normalized C
                (forward C (optimizer_step C (backward C (zero_grad (net M)) x y)) x))\<rparr>]
      \<and> predict_panel (last (figures (on_train_batch_end C (snd (training_step C M (x, y) i)) (x, y) i))) =
          first_sample C (normalized C (forward C (net (snd (training_step C M (x, y) i))) x))
      \<and> loggers (on_train_batch_end C (snd (training_step C M (x, y) i)) (x, y) i) =
          map (add_image (''training_images_epoch_'' @ str_int (current_epoch M))
                 (last (figures (on_train_batch_end C (snd (training_step C M (x, y) i)) (x, y) i)))
                 (current_epoch M))
              (loggers M))
   \<and> net (snd (training_step C M (x, y) i)) = optimizer_step C (backward C (zero_grad (net M)) x y)
   \<and> fst (training_step C M (x, y) i) = criterion_fn C (forward C (net M) x) y
   \<and> metrics (snd (training_step C M (x, y) i)) ''train_kl_div'' =
       metrics M ''train_kl_div'' @ [convert_kl_div C (forward C (net M) x) y]
   \<and> metrics (snd (training_step C M (x, y) i)) ''train_sim'' =
       metrics M ''train_sim'' @ [convert_sim C (forward C (net M) x) y]
   \<and> metrics (snd (training_step C M (x, y) i)) ''train_scc'' =
       metrics M ''train_scc'' @ [convert_scc C (forward C (net M) x) y]
   \<and> metrics (snd (training_step C M (x, y) i)) ''train_auroc'' =
       metrics M ''train_auroc'' @ [convert_auroc C (forward C (net M) x) y]
   \<and> predict_panel (last (figures
         (on_train_batch_end toy (snd (training_step toy toy_model_late (2, 5) 1)) (2, 5) 1)))
       \<noteq> first_sample toy (normalized toy (forward toy (net toy_model_late) 2))"
proof -
  let ?S = "snd (training_step C M (x, y) i)"
  let ?L = "optimizer_step C (backward C (zero_grad (net M)) x y)"
  let ?fig = "\<lparr>suptitle = ''training epoch: '' @ str_int (current_epoch M),
            input_panel = first_sample C (normalized C x),
            ground_truth_panel = first_sample C (normalized C y),
            predict_panel = first_sample C (normalized C (forward C ?L x))\<rparr>"
  have netS: "net ?S = ?L"
    by (simp add: training_step_frame)
  have draw: "draw_figure C ''training'' (current_epoch M) x y (forward C ?L x) = ?fig"
    by (simp add: draw_figure_def)
  have figs: "i = num_training_batches M - 1 \<Longrightarrow>
      figures (on_train_batch_end C ?S (x, y) i) = figures M @ [?fig]"
    by (simp add: on_train_batch_end_frame training_step_frame draw)
  have logs: "i = num_training_batches M - 1 \<Longrightarrow>
      loggers (on_train_batch_end C ?S (x, y) i) =
        map (add_image (''training_images_epoch_'' @ str_int (current_epoch M)) ?fig (current_epoch M))
            (loggers M)"
    using on_train_batch_end_loggers [of i ?S C x y]
    by (simp add: training_step_frame training_step_loggers draw)
  have toy_case: "predict_panel (last (figures
         (on_train_batch_end toy (snd (training_step toy toy_model_late (2, 5) 1)) (2, 5) 1)))
       \<noteq> first_sample toy (normalized toy (forward toy (net toy_model_late) 2))"
    by (simp add: on_train_batch_end_frame training_step_frame toy_draw_figure toy_forward_eq
        toy_update_eq toy_panel_eq toy_model_late_def toy_model_def toy_trained_def)
  show ?thesis
    using figs logs toy_case
    by (simp add: training_step_frame training_step_metrics)
qed

text \<open>
  C10, at an input: the trained small network on the batch \<open>(2, 5)\<close> as final batch.
  The loss 81 and the metric pair see the prediction -4 made before the update; the
  figure, which the TensorBoard logger receives, shows the input 2, the target 5 and the
  prediction 32 made after it.
\<close>

theorem C10_snapshot_after_update_witness:
  "(1 :: int) = num_training_batches toy_model_late - 1
   \<and> figures (on_train_batch_end toy (snd (training_step toy toy_model_late (2, 5) 1)) (2, 5) 1) =
       [\<lparr>suptitle = ''training epoch: 0'', input_panel = 2, ground_truth_panel = 5, predict_panel = 32\<rparr>]
   \<and> loggers (on_train_batch_end toy (snd (training_step toy toy_model_late (2, 5) 1)) (2, 5) 1) =
       [TensorBoardLogger
          [(''training_images_epoch_0'',
            \<lparr>suptitle = ''training epoch: 0'', input_panel = 2, ground_truth_panel = 5, predict_panel = 32\<rparr>,
            0)],
        OtherLogger]
   \<and> fst (training_step toy toy_model_late (2, 5) 1) = 81
   \<and> metrics (snd (training_step toy toy_model_late (2, 5) 1)) ''train_sim'' = [(- 4, 5)]"
proof -
  have h: "(1 :: int) = num_training_batches toy_model_late - 1"
    by (simp add: toy_model_late_def toy_model_def)
  have m: "net toy_model_late = toy_trained" "figures toy_model_late = []"
      "current_epoch toy_model_late = 0" "metrics toy_model_late ''train_sim'' = []"
      "loggers toy_model_late = [TensorBoardLogger [], OtherLogger]"
    by (simp_all add: toy_model_late_def toy_model_def no_updates_def)
  have c: "criterion_fn toy (- 4) 5 = 81" "convert_sim toy (- 4) 5 = (- 4, 5)"
    by (simp_all add: toy_def toy_criterion_def toy_pair_def)
  from C10_snapshot_after_update [of 1 toy_model_late toy 2 5] h
  show ?thesis
    by (simp add: m c toy_forward_eq toy_update_eq toy_panel_eq toy_trained_def str_int_0)
qed

end
